theory Spec2Isabelle
  imports Complex_Main "HOL-Library.AList" "HOL-Library.Log_Nat"
begin

section \<open>JavaScript numbers\<close>

text \<open>
  A temperature is a JavaScript \<^verbatim>\<open>number\<close>, an IEEE-754 binary64 value. A finite
  double is represented by the real number it denotes (the sign of zero is not kept), and the
  two infinities are kept apart because a JSON numeral such as \<^verbatim>\<open>1e999\<close> parses to one.
  JSON has no numeral for NaN, and the arithmetic below (a product with 9, a quotient by
  5, a sum with 32) does not produce it from the other values; it comes in where a value
  that is not a number is converted to one (\<^verbatim>\<open>undefined * 9\<close>), and from there on
  every operation gives NaN and every comparison is false.
  Timestamps (\<^verbatim>\<open>Date.now()\<close>, milliseconds since the epoch) are integers far below
  \<open>2 ^ 53\<close> and are modelled as \<open>int\<close>.
\<close>

datatype jsnum = Num real | PosInf | NegInf | NaN

text \<open>\<open>pow2 e\<close> is the power of two with an integer exponent, and \<open>floor_log2 x\<close> the
  binary exponent of a positive number: the integer \<open>e\<close> with
  \<open>pow2 e \<le> x < pow2 (e + 1)\<close>.\<close>

definition pow2 :: "int \<Rightarrow> real" where
  "pow2 e = (if 0 \<le> e then 2 ^ nat e else 1 / 2 ^ nat (- e))"

definition floor_log2 :: "real \<Rightarrow> int" where
  "floor_log2 x = (if 1 \<le> x then bitlen \<lfloor>x\<rfloor> - 1 else - bitlen (\<lceil>1 / x\<rceil> - 1))"

definition round_half_even :: "real \<Rightarrow> int" where
  "round_half_even m =
     (let f = \<lfloor>m\<rfloor>; d = m - of_int f
      in if d < 1 / 2 then f
         else if 1 / 2 < d then f + 1
         else if even f then f else f + 1)"

text \<open>Rounding of an exact result to binary64, round-to-nearest, ties to even: 53
  significant bits, the smallest exponent is \<open>-1022\<close> (below it the spacing stays
  \<open>pow2 (- 1074)\<close>), and a rounded magnitude of \<open>2 ^ 1024\<close> or more is an infinity.\<close>

definition to_double :: "real \<Rightarrow> jsnum" where
  "to_double x =
     (if x = 0 then Num 0
      else let e = max (floor_log2 \<bar>x\<bar>) (- 1022);
               q = pow2 (e - 52);
               r = of_int (round_half_even (\<bar>x\<bar> / q)) * q
           in if 2 ^ 1024 \<le> r then (if 0 < x then PosInf else NegInf)
              else Num (sgn x * r))"

text \<open>The three arithmetic operations of the source, each with a positive finite
  constant as its right operand.\<close>

fun js_mul :: "jsnum \<Rightarrow> real \<Rightarrow> jsnum" where
  "js_mul (Num x) c = to_double (x * c)"
| "js_mul PosInf c = PosInf"
| "js_mul NegInf c = NegInf"
| "js_mul NaN c = NaN"

fun js_div :: "jsnum \<Rightarrow> real \<Rightarrow> jsnum" where
  "js_div (Num x) c = to_double (x / c)"
| "js_div PosInf c = PosInf"
| "js_div NegInf c = NegInf"
| "js_div NaN c = NaN"

fun js_add :: "jsnum \<Rightarrow> real \<Rightarrow> jsnum" where
  "js_add (Num x) c = to_double (x + c)"
| "js_add PosInf c = PosInf"
| "js_add NegInf c = NegInf"
| "js_add NaN c = NaN"

text \<open>Comparison with a finite constant: \<^verbatim>\<open>x < c\<close> and \<^verbatim>\<open>x > c\<close>.\<close>

fun js_lt :: "jsnum \<Rightarrow> real \<Rightarrow> bool" where
  "js_lt (Num x) c = (x < c)"
| "js_lt PosInf c = False"
| "js_lt NegInf c = True"
| "js_lt NaN c = False"

fun js_gt :: "jsnum \<Rightarrow> real \<Rightarrow> bool" where
  "js_gt (Num x) c = (c < x)"
| "js_gt PosInf c = True"
| "js_gt NegInf c = False"
| "js_gt NaN c = False"

text \<open>
  \<^verbatim>\<open>x.toFixed(1)\<close> prints the decimal \<open>n / 10\<close> where the integer \<open>n\<close> makes
  \<open>n / 10 - x\<close> as close to zero as possible, the larger \<open>n\<close> on a tie, computed on the
  magnitude of \<open>x\<close> with the sign put back in front (ECMA-262, Number.prototype.toFixed).
  \<open>toFixed1\<close> is the number that the printed decimal denotes. (From \<open>10 ^ 21\<close> on
  \<^verbatim>\<open>toFixed\<close> prints the double itself, which is what the formula gives for a double of
  that size; the guard keeps the values of this program below 200.)
\<close>

definition toFixed1 :: "real \<Rightarrow> real" where
  "toFixed1 x = sgn x * of_int \<lfloor>\<bar>x\<bar> * 10 + 1 / 2\<rfloor> / 10"

text \<open>\<^verbatim>\<open>parseFloat(x.toFixed(1))\<close>: the double nearest to the printed decimal. An infinity
  prints as \<^verbatim>\<open>Infinity\<close> and NaN as \<^verbatim>\<open>NaN\<close>, and each parses back to itself.\<close>

fun parseFloat_toFixed1 :: "jsnum \<Rightarrow> jsnum" where
  "parseFloat_toFixed1 (Num x) = to_double (toFixed1 x)"
| "parseFloat_toFixed1 PosInf = PosInf"
| "parseFloat_toFixed1 NegInf = NegInf"
| "parseFloat_toFixed1 NaN = NaN"

text \<open>
  A value of the parsed JSON body at a place where the source expects a number:
  \<^verbatim>\<open>undefined\<close> (the key is missing), \<^verbatim>\<open>null\<close>, a boolean, a number, or anything else
  (a string, an array, an object). The last carries what the conversion to a number
  makes of it (ECMA-262, ToNumber after ToPrimitive): the number a numeric string such
  as \<^verbatim>\<open>"65"\<close> denotes, NaN for other text and for a plain object, and nothing where
  the conversion throws a \<^verbatim>\<open>TypeError\<close> (an object whose own \<^verbatim>\<open>toString\<close> and
  \<^verbatim>\<open>valueOf\<close> are not functions).
\<close>

datatype JsonValue = JUndefined | JNull | JBool bool | JNumber jsnum | JOther "jsnum option"

text \<open>What an arithmetic operator, or a comparison with a number, makes of a value;
  \<open>None\<close> when the conversion throws.\<close>

fun ToNumber :: "JsonValue \<Rightarrow> jsnum option" where
  "ToNumber JUndefined = Some NaN"
| "ToNumber JNull = Some (Num 0)"
| "ToNumber (JBool b) = Some (Num (if b then 1 else 0))"
| "ToNumber (JNumber x) = Some x"
| "ToNumber (JOther r) = r"

text \<open>The receiver of a call of \<^verbatim>\<open>toFixed\<close>: only a number has the method. On
  \<^verbatim>\<open>undefined\<close> and \<^verbatim>\<open>null\<close> the property access throws a \<^verbatim>\<open>TypeError\<close>, on every
  other value the call of a property that is not a function does.\<close>

fun as_number :: "JsonValue \<Rightarrow> jsnum option" where
  "as_number (JNumber x) = Some x"
| "as_number JUndefined = None"
| "as_number JNull = None"
| "as_number (JBool b) = None"
| "as_number (JOther r) = None"

section \<open>Data model (weatherTypes.ts)\<close>

datatype WeatherStatus = online | offline | outdated

datatype TemperatureUnit = celsius | fahrenheit

record WeatherData =
  temperature :: jsnum
  unit :: string
  location :: string
  timestamp :: string
  status :: WeatherStatus
  fetchedAt :: int

text \<open>The value of a \<^verbatim>\<open>TemperatureUnit\<close> inside a template string.\<close>

fun unit_string :: "TemperatureUnit \<Rightarrow> string" where
  "unit_string celsius = ''celsius''"
| "unit_string fahrenheit = ''fahrenheit''"

section \<open>The cache (instances/cache/weatherCache.ts)\<close>

record CacheEntry =
  data :: WeatherData
  expiresAt :: int

text \<open>
  The two \<^verbatim>\<open>Map\<close>s of the class. \<open>cache\<close> is iterated by the cleanup, so it is an
  association list in insertion order: \<^verbatim>\<open>Map.set\<close> is \<open>AList.update\<close> (replace in place or
  append), \<^verbatim>\<open>Map.delete\<close> is \<open>AList.delete\<close>, \<^verbatim>\<open>Map.get\<close> is \<open>map_of\<close>.
  \<open>lastRefreshTimes\<close> is only read and written by key. The timer handle
  \<^verbatim>\<open>cleanupInterval\<close> holds no data and is left out. Every reading of \<^verbatim>\<open>Date.now()\<close> is
  an argument.
\<close>

record WeatherCache =
  cache :: "(string \<times> CacheEntry) list"
  lastRefreshTimes :: "string \<rightharpoonup> int"

definition WeatherCache_new :: WeatherCache where
  "WeatherCache_new = \<lparr>cache = [], lastRefreshTimes = Map.empty\<rparr>"

definition WeatherCache_get :: "int \<Rightarrow> WeatherCache \<Rightarrow> string \<Rightarrow> WeatherData option \<times> WeatherCache" where
  "WeatherCache_get now s key =
     (case map_of (cache s) key of
        None \<Rightarrow> (None, s)
      | Some entry \<Rightarrow>
          if now > expiresAt entry
          then (None, s\<lparr>cache := AList.delete key (cache s)\<rparr>)
          else (Some (data entry), s))"

definition WeatherCache_set :: "int \<Rightarrow> WeatherCache \<Rightarrow> string \<Rightarrow> WeatherData \<Rightarrow> WeatherCache" where
  "WeatherCache_set now s key d =
     (let ttl = 900000; expiresAt = now + ttl
      in s\<lparr>cache := AList.update key \<lparr>data = d, expiresAt = expiresAt\<rparr> (cache s)\<rparr>)"

definition setLastRefreshTime :: "WeatherCache \<Rightarrow> string \<Rightarrow> int \<Rightarrow> WeatherCache" where
  "setLastRefreshTime s loc t = s\<lparr>lastRefreshTimes := (lastRefreshTimes s)(loc \<mapsto> t)\<rparr>"

text \<open>\<^verbatim>\<open>this.lastRefreshTimes.get(location) || null\<close>: a stored \<open>0\<close> is falsy and reads as
  \<^verbatim>\<open>null\<close>.\<close>

definition getLastRefreshTime :: "WeatherCache \<Rightarrow> string \<Rightarrow> int option" where
  "getLastRefreshTime s loc =
     (case lastRefreshTimes s loc of
        None \<Rightarrow> None
      | Some t \<Rightarrow> if t = 0 then None else Some t)"

definition clear :: "WeatherCache \<Rightarrow> WeatherCache" where
  "clear s = s\<lparr>cache := [], lastRefreshTimes := Map.empty\<rparr>"

text \<open>The callback of \<^verbatim>\<open>startCleanupInterval\<close>: one reading of the clock, then a loop over
  the entries that deletes the expired ones. The loop runs over the entries as they were
  when it started; a deletion removes only the entry being visited.\<close>

fun cleanup_loop :: "int \<Rightarrow> (string \<times> CacheEntry) list \<Rightarrow> WeatherCache \<Rightarrow> WeatherCache" where
  "cleanup_loop now [] s = s"
| "cleanup_loop now ((key, entry) # rest) s =
     cleanup_loop now rest
       (if now > expiresAt entry then s\<lparr>cache := AList.delete key (cache s)\<rparr> else s)"

definition cleanup :: "int \<Rightarrow> WeatherCache \<Rightarrow> WeatherCache" where
  "cleanup now s = cleanup_loop now (cache s) s"

section \<open>The weather service (services/weather/weatherService.ts)\<close>

text \<open>
  What the service takes from outside. \<open>Config\<close> is the part of \<^verbatim>\<open>@/config\<close> the
  service tests, a parameter here (the URL and the key only go into the request).
  \<open>AxiosResult\<close> is the outcome of the one
  \<^verbatim>\<open>await axios.get(...)\<close>: a rejection (no connection, the 5 second timeout, a non-2xx
  status) carrying \<^verbatim>\<open>error.response?.data?.error?.message\<close> when there is one, or a
  response whose \<^verbatim>\<open>data\<close> may be missing, may lack \<^verbatim>\<open>current\<close> and may lack
  \<^verbatim>\<open>location\<close> (\<open>location_obj\<close> here, \<open>location\<close> being a field of \<open>WeatherData\<close>).
  The response is whatever JSON the upstream sent, so \<^verbatim>\<open>current.temp_c\<close> is any
  \<open>JsonValue\<close>: \<open>JUndefined\<close> when \<^verbatim>\<open>current\<close> has no such key. Where
  \<^verbatim>\<open>location\<close> is present, \<^verbatim>\<open>name\<close> is a string.
\<close>

record Config =
  apiKey :: "string option"

record ApiCurrent =
  temp_c :: JsonValue

record ApiLocation =
  name :: string

record ApiData =
  current :: "ApiCurrent option"
  location_obj :: "ApiLocation option"

datatype AxiosResult = AxiosReject "string option" | AxiosResponse "ApiData option"

text \<open>What the \<^verbatim>\<open>try\<close> block can throw: the three \<^verbatim>\<open>new Error(...)\<close>, the rejection of
  axios, and a \<^verbatim>\<open>TypeError\<close>: of a \<^verbatim>\<open>temp_c\<close> that cannot be converted to a number, of
  \<^verbatim>\<open>toFixed\<close> on a value that is not a number, of reading \<^verbatim>\<open>.name\<close> of a missing
  \<^verbatim>\<open>location\<close>.\<close>

datatype Thrown = Error string | AxiosError "string option" | TypeError

text \<open>The error the service throws: \<^verbatim>\<open>new Error(message)\<close> with its \<^verbatim>\<open>code\<close> set.\<close>

record ApiError =
  message :: string
  code :: string

text \<open>The readings of the clock that one run of \<^verbatim>\<open>fetchWeatherFromAPI\<close> takes after the
  \<^verbatim>\<open>await\<close>: \<^verbatim>\<open>new Date()\<close> (its local hours and minutes), \<^verbatim>\<open>Date.now()\<close> for
  \<^verbatim>\<open>fetchedAt\<close>, inside \<^verbatim>\<open>set\<close>, for \<^verbatim>\<open>setLastRefreshTime\<close>, and inside the \<^verbatim>\<open>get\<close> of
  the \<^verbatim>\<open>catch\<close> block.\<close>

record Readings =
  date_hours :: nat
  date_minutes :: nat
  now_fetchedAt :: int
  now_set :: int
  now_refresh :: int
  now_catch :: int

text \<open>A string in a condition: \<^verbatim>\<open>undefined\<close> and the empty string are falsy.\<close>

fun truthy :: "string option \<Rightarrow> bool" where
  "truthy None = False"
| "truthy (Some str) = (str \<noteq> [])"

definition digit :: "nat \<Rightarrow> char" where
  "digit n = ''0123456789'' ! (n mod 10)"

fun toString :: "nat \<Rightarrow> string" where
  "toString n = (if n < 10 then [digit n] else toString (n div 10) @ [digit (n mod 10)])"

declare toString.simps [simp del]

definition padStart :: "string \<Rightarrow> nat \<Rightarrow> char \<Rightarrow> string" where
  "padStart str targetLength c = replicate (targetLength - length str) c @ str"

text \<open>\<^verbatim>\<open>(celsius * 9) / 5 + 32\<close>, on the number that the product makes of its
  argument.\<close>

definition celsiusToFahrenheit :: "jsnum \<Rightarrow> jsnum" where
  "celsiusToFahrenheit c = js_add (js_div (js_mul c 9) 5) 32"

text \<open>The template string \<^verbatim>\<open>`${location}_${unit}`\<close>.\<close>

definition cacheKey :: "string \<Rightarrow> TemperatureUnit \<Rightarrow> string" where
  "cacheKey loc u = loc @ ''_'' @ unit_string u"

text \<open>The degree sign is the single code unit \<open>0xB0\<close>.\<close>

definition unit_symbol :: "TemperatureUnit \<Rightarrow> string" where
  "unit_symbol u = (if u = celsius then [CHR 0xB0, CHR ''C''] else [CHR 0xB0, CHR ''F''])"

text \<open>
  The \<^verbatim>\<open>try\<close> block of \<^verbatim>\<open>fetchWeatherFromAPI\<close>, statement by statement, with the cache
  threaded through: the result is what the block returns or throws, and the cache as
  the block leaves it. \<^verbatim>\<open>tempCelsius\<close> is the value as the response has it. Its
  conversion to a number happens in \<^verbatim>\<open>celsiusToFahrenheit\<close> (for the unit fahrenheit)
  and in both comparisons of the guard; where that conversion throws, the block throws
  there, before anything else is done. \<^verbatim>\<open>temperature\<close> is a number for fahrenheit and
  the value itself for celsius, and \<^verbatim>\<open>temperature.toFixed(1)\<close> throws on anything but a
  number; that call is evaluated before \<^verbatim>\<open>response.data.location.name\<close>.
\<close>

definition fetch_try ::
  "Readings \<Rightarrow> Config \<Rightarrow> AxiosResult \<Rightarrow> WeatherCache \<Rightarrow> string \<Rightarrow> TemperatureUnit
     \<Rightarrow> (Thrown + WeatherData) \<times> WeatherCache" where
  "fetch_try rd cfg ax s loc u =
     (if \<not> truthy (apiKey cfg) then (Inl (Error ''Weather API key not configured''), s)
      else case ax of
        AxiosReject m \<Rightarrow> (Inl (AxiosError m), s)
      | AxiosResponse None \<Rightarrow> (Inl (Error ''Invalid API response format''), s)
      | AxiosResponse (Some body) \<Rightarrow>
          (case current body of
             None \<Rightarrow> (Inl (Error ''Invalid API response format''), s)
           | Some cur \<Rightarrow>
               let tempCelsius = temp_c cur
               in case ToNumber tempCelsius of
                    None \<Rightarrow> (Inl TypeError, s)
                  | Some n \<Rightarrow>
                      let temp = (if u = fahrenheit then JNumber (celsiusToFahrenheit n)
                                  else tempCelsius)
                      in if js_lt n (- 90) \<or> js_gt n 60
                         then (Inl (Error ''Temperature value outside plausible range''), s)
                         else
                           let ts = ''Updated at '' @ padStart (toString (date_hours rd)) 2 CHR ''0''
                                      @ '':'' @ padStart (toString (date_minutes rd)) 2 CHR ''0''
                           in case as_number temp of
                                None \<Rightarrow> (Inl TypeError, s)
                              | Some t \<Rightarrow>
                                  (case location_obj body of
                                     None \<Rightarrow> (Inl TypeError, s)
                                   | Some l \<Rightarrow>
                                       let weatherData =
                                             \<lparr>temperature = parseFloat_toFixed1 t,
                                              unit = unit_symbol u,
                                              location = name l,
                                              timestamp = ts,
                                              status = online,
                                              fetchedAt = now_fetchedAt rd\<rparr>;
                                           s1 = WeatherCache_set (now_set rd) s (cacheKey loc u)
                                                  weatherData;
                                           s2 = setLastRefreshTime s1 loc (now_refresh rd)
                                       in (Inr weatherData, s2))))"

text \<open>
  The same block as the sequence of what it does, in the order of the source: the call
  of \<^verbatim>\<open>axios.get\<close>, the call of \<^verbatim>\<open>celsiusToFahrenheit\<close> with its argument (the statement
  before the guard, made for the unit fahrenheit only), a \<^verbatim>\<open>throw\<close>, and the two writes
  \<^verbatim>\<open>weatherCache.set\<close> and \<^verbatim>\<open>weatherCache.setLastRefreshTime\<close> with the key they write.
  The pure steps in between (the comparisons, the formatting of the time, the building
  of the snapshot) are not listed.
\<close>

datatype Event =
    Call_axios_get
  | Call_celsiusToFahrenheit JsonValue
  | Throw Thrown
  | Call_set string
  | Call_setLastRefreshTime string

definition fetch_try_events ::
  "Config \<Rightarrow> AxiosResult \<Rightarrow> string \<Rightarrow> TemperatureUnit \<Rightarrow> Event list" where
  "fetch_try_events cfg ax loc u =
     (if \<not> truthy (apiKey cfg) then [Throw (Error ''Weather API key not configured'')]
      else Call_axios_get #
        (case ax of
           AxiosReject m \<Rightarrow> [Throw (AxiosError m)]
         | AxiosResponse None \<Rightarrow> [Throw (Error ''Invalid API response format'')]
         | AxiosResponse (Some body) \<Rightarrow>
             (case current body of
                None \<Rightarrow> [Throw (Error ''Invalid API response format'')]
              | Some cur \<Rightarrow>
                  let tempCelsius = temp_c cur
                  in (if u = fahrenheit then [Call_celsiusToFahrenheit tempCelsius] else []) @
                     (case ToNumber tempCelsius of
                        None \<Rightarrow> [Throw TypeError]
                      | Some n \<Rightarrow>
                          let temp = (if u = fahrenheit then JNumber (celsiusToFahrenheit n)
                                      else tempCelsius)
                          in if js_lt n (- 90) \<or> js_gt n 60
                             then [Throw (Error ''Temperature value outside plausible range'')]
                             else case as_number temp of
                                    None \<Rightarrow> [Throw TypeError]
                                  | Some t \<Rightarrow>
                                      (case location_obj body of
                                         None \<Rightarrow> [Throw TypeError]
                                       | Some l \<Rightarrow>
                                           [Call_set (cacheKey loc u),
                                            Call_setLastRefreshTime loc])))))"

text \<open>\<^verbatim>\<open>error.response?.data?.error?.message || 'Failed to fetch weather data'\<close>.\<close>

fun apiError_message :: "Thrown \<Rightarrow> string" where
  "apiError_message (AxiosError (Some m)) = (if m = [] then ''Failed to fetch weather data'' else m)"
| "apiError_message (AxiosError None) = ''Failed to fetch weather data''"
| "apiError_message (Error m) = ''Failed to fetch weather data''"
| "apiError_message TypeError = ''Failed to fetch weather data''"

text \<open>\<^verbatim>\<open>fetchWeatherFromAPI\<close>: the \<^verbatim>\<open>try\<close> block, and the \<^verbatim>\<open>catch\<close> block when it threw.
  \<open>Inl\<close> is the thrown \<open>ApiError\<close>.\<close>

definition fetchWeatherFromAPI ::
  "Readings \<Rightarrow> Config \<Rightarrow> AxiosResult \<Rightarrow> WeatherCache \<Rightarrow> string \<Rightarrow> TemperatureUnit
     \<Rightarrow> (ApiError + WeatherData) \<times> WeatherCache" where
  "fetchWeatherFromAPI rd cfg ax s loc u =
     (case fetch_try rd cfg ax s loc u of
        (Inr weatherData, s') \<Rightarrow> (Inr weatherData, s')
      | (Inl error, s') \<Rightarrow>
          (case WeatherCache_get (now_catch rd) s' (cacheKey loc u) of
             (Some cachedData, s'') \<Rightarrow> (Inr (cachedData\<lparr>status := offline\<rparr>), s'')
           | (None, s'') \<Rightarrow>
               (Inl \<lparr>message = apiError_message error, code = ''WEATHER_API_ERROR''\<rparr>, s'')))"

text \<open>\<^verbatim>\<open>getCurrentWeather\<close> reads the clock inside \<^verbatim>\<open>get\<close> (\<open>now_get\<close>) and for the age
  of a hit (\<open>now_age\<close>).\<close>

definition getCurrentWeather ::
  "int \<Rightarrow> int \<Rightarrow> Readings \<Rightarrow> Config \<Rightarrow> AxiosResult \<Rightarrow> WeatherCache \<Rightarrow> string \<Rightarrow> TemperatureUnit
     \<Rightarrow> (ApiError + WeatherData) \<times> WeatherCache" where
  "getCurrentWeather now_get now_age rd cfg ax s loc u =
     (case WeatherCache_get now_get s (cacheKey loc u) of
        (Some cachedData, s') \<Rightarrow>
          let cacheAge = now_age - fetchedAt cachedData;
              isOutdated = cacheAge > 3600000
          in (Inr (cachedData\<lparr>status := (if isOutdated then outdated else online)\<rparr>), s')
      | (None, s') \<Rightarrow> fetchWeatherFromAPI rd cfg ax s' loc u)"

definition refreshWeather ::
  "Readings \<Rightarrow> Config \<Rightarrow> AxiosResult \<Rightarrow> WeatherCache \<Rightarrow> string \<Rightarrow> TemperatureUnit
     \<Rightarrow> (ApiError + WeatherData) \<times> WeatherCache" where
  "refreshWeather rd cfg ax s loc u = fetchWeatherFromAPI rd cfg ax s loc u"

definition checkRefreshEligibility :: "int \<Rightarrow> WeatherCache \<Rightarrow> string \<Rightarrow> bool" where
  "checkRefreshEligibility now s loc =
     (case getLastRefreshTime s loc of
        None \<Rightarrow> True
      | Some lastRefresh \<Rightarrow>
          let timeSinceRefresh = now - lastRefresh
          in timeSinceRefresh \<ge> 30000)"

section \<open>The controller (api/v1/external/weather/controller.ts)\<close>

text \<open>
  A field of the request body or query: absent, a string, or a value of another type.
  The zod schema wants \<^verbatim>\<open>location\<close> a string of 1 to 50 code units and \<^verbatim>\<open>unit\<close> absent
  (then \<^verbatim>\<open>celsius\<close>) or one of the two unit names. A response is \<^verbatim>\<open>res.json\<close> of a
  \<^verbatim>\<open>successResponse\<close>, \<^verbatim>\<open>res.status(n).json\<close> of an \<^verbatim>\<open>errorResponse(code, message)\<close>, or
  the error handed to \<^verbatim>\<open>next\<close>; the time stamps that \<^verbatim>\<open>utils/response\<close> adds to a body
  and the zod issue list are left out.
\<close>

datatype Field = Absent | Str string | Other

record Request =
  req_location :: Field
  req_unit :: Field

datatype HttpResponse = Success WeatherData | Failure nat string string | Next ApiError

fun parse_location :: "Field \<Rightarrow> string option" where
  "parse_location (Str l) = (if 1 \<le> length l \<and> length l \<le> 50 then Some l else None)"
| "parse_location Absent = None"
| "parse_location Other = None"

fun parse_unit :: "Field \<Rightarrow> TemperatureUnit option" where
  "parse_unit Absent = Some celsius"
| "parse_unit (Str x) =
     (if x = ''celsius'' then Some celsius
      else if x = ''fahrenheit'' then Some fahrenheit else None)"
| "parse_unit Other = None"

definition parse :: "Request \<Rightarrow> (string \<times> TemperatureUnit) option" where
  "parse req =
     (case parse_location (req_location req) of
        None \<Rightarrow> None
      | Some l \<Rightarrow> (case parse_unit (req_unit req) of None \<Rightarrow> None | Some u \<Rightarrow> Some (l, u)))"

definition respond :: "(ApiError + WeatherData) \<times> WeatherCache \<Rightarrow> HttpResponse \<times> WeatherCache" where
  "respond r =
     (case r of
        (Inr weatherData, s) \<Rightarrow> (Success weatherData, s)
      | (Inl error, s) \<Rightarrow>
          if code error = ''WEATHER_API_ERROR''
          then (Failure 502 ''WEATHER_API_ERROR'' (message error), s)
          else (Next error, s))"

definition controller_getCurrentWeather ::
  "int \<Rightarrow> int \<Rightarrow> Readings \<Rightarrow> Config \<Rightarrow> AxiosResult \<Rightarrow> WeatherCache \<Rightarrow> Request
     \<Rightarrow> HttpResponse \<times> WeatherCache" where
  "controller_getCurrentWeather now_get now_age rd cfg ax s req =
     (case parse req of
        None \<Rightarrow> (Failure 400 ''VALIDATION_ERROR'' ''Invalid request parameters'', s)
      | Some (l, u) \<Rightarrow> respond (getCurrentWeather now_get now_age rd cfg ax s l u))"

text \<open>\<open>now_gate\<close> is the reading of the clock inside \<^verbatim>\<open>checkRefreshEligibility\<close>.\<close>

definition controller_refreshWeather ::
  "int \<Rightarrow> Readings \<Rightarrow> Config \<Rightarrow> AxiosResult \<Rightarrow> WeatherCache \<Rightarrow> Request
     \<Rightarrow> HttpResponse \<times> WeatherCache" where
  "controller_refreshWeather now_gate rd cfg ax s req =
     (case parse req of
        None \<Rightarrow> (Failure 400 ''VALIDATION_ERROR'' ''Invalid request parameters'', s)
      | Some (l, u) \<Rightarrow>
          let canRefresh = checkRefreshEligibility now_gate s l
          in if \<not> canRefresh
             then (Failure 429 ''RATE_LIMIT_ERROR''
                     ''Please wait at least 30 seconds between manual updates'', s)
             else respond (refreshWeather rd cfg ax s l u))"

section \<open>Example values\<close>

text \<open>A configuration with a key, the readings of a clock that stands at \<open>t\<close> at five past
  nine, a well-formed response, and the snapshot and the store that the first fetch for
  Tokyo leaves.\<close>

abbreviation ex_config :: Config where
  "ex_config \<equiv> \<lparr>apiKey = Some ''key''\<rparr>"

abbreviation ex_readings :: "int \<Rightarrow> Readings" where
  "ex_readings t \<equiv> \<lparr>date_hours = 9, date_minutes = 5, now_fetchedAt = t, now_set = t,
     now_refresh = t, now_catch = t\<rparr>"

abbreviation ex_response :: "real \<Rightarrow> string \<Rightarrow> AxiosResult" where
  "ex_response c n \<equiv>
     AxiosResponse (Some \<lparr>current = Some \<lparr>temp_c = JNumber (Num c)\<rparr>,
       location_obj = Some \<lparr>name = n\<rparr>\<rparr>)"

abbreviation ex_tokyo :: WeatherData where
  "ex_tokyo \<equiv> \<lparr>temperature = Num 20, unit = [CHR 0xB0, CHR ''C''], location = ''Tokyo'',
     timestamp = ''Updated at 09:05'', status = online, fetchedAt = 1700000000000\<rparr>"

abbreviation ex_cache :: WeatherCache where
  "ex_cache \<equiv> snd (fetchWeatherFromAPI (ex_readings 1700000000000) ex_config
     (ex_response 20 ''Tokyo'') WeatherCache_new ''Tokyo'' celsius)"

section \<open>Rounding: binary64 and one decimal\<close>

lemma pow2_pos: "0 < pow2 e"
  by (simp add: pow2_def)

lemma pow2_Suc: "pow2 (e + 1) = 2 * pow2 e"
proof (cases "0 \<le> e")
  case True
  then show ?thesis by (simp add: pow2_def nat_add_distrib)
next
  case False
  then have "nat (- e) = Suc (nat (- (e + 1)))" by simp
  with False show ?thesis
    by (cases "e + 1 = 0") (simp_all add: pow2_def)
qed

lemma pow2_mono: "a \<le> b \<Longrightarrow> pow2 a \<le> pow2 b"
proof -
  assume "a \<le> b"
  then obtain n where b: "b = a + int n"
    using zle_iff_zadd by blast
  have "pow2 a \<le> pow2 (a + int n)"
  proof (induction n)
    case 0
    then show ?case by simp
  next
    case (Suc n)
    have "pow2 (a + int (Suc n)) = 2 * pow2 (a + int n)"
      using pow2_Suc[of "a + int n"] by (simp add: algebra_simps)
    with Suc pow2_pos[of "a + int n"] show ?case by simp
  qed
  with b show ?thesis by simp
qed

lemma pow2_less_imp: "pow2 a < pow2 b \<Longrightarrow> a < b"
  using pow2_mono[of b a] by (cases "a < b") auto

lemma floor_log2_bounds:
  assumes "0 < x"
  shows "pow2 (floor_log2 x) \<le> x \<and> x < pow2 (floor_log2 x + 1)"
proof (cases "1 \<le> x")
  case True
  define n where "n = \<lfloor>x\<rfloor>"
  have n1: "1 \<le> n" using True by (simp add: n_def le_floor_iff)
  then have n0: "0 < n" by simp
  have e: "floor_log2 x = bitlen n - 1" using True by (simp add: floor_log2_def n_def)
  have b1: "1 \<le> bitlen n" using n0 by (simp add: bitlen_alt_def)
  from bitlen_bounds[OF n0] have lo: "2 ^ nat (bitlen n - 1) \<le> n" and hi: "n < 2 ^ nat (bitlen n)"
    by simp_all
  have "real_of_int (2 ^ nat (bitlen n - 1)) \<le> real_of_int n" using lo by linarith
  also have "real_of_int n \<le> x" by (simp add: n_def)
  finally have 1: "pow2 (floor_log2 x) \<le> x" using b1 by (simp add: e pow2_def)
  from hi have "n + 1 \<le> 2 ^ nat (bitlen n)" by simp
  then have "real_of_int (n + 1) \<le> real_of_int (2 ^ nat (bitlen n))" by linarith
  moreover have "x < real_of_int (n + 1)" by (simp add: n_def)
  ultimately have 2: "x < pow2 (floor_log2 x + 1)" using b1 by (simp add: e pow2_def)
  from 1 2 show ?thesis by simp
next
  case False
  then have x1: "x < 1" by simp
  define y where "y = 1 / x"
  have y1: "1 < y" using assms x1 by (simp add: y_def)
  define m where "m = \<lceil>y\<rceil> - 1"
  have m1: "1 \<le> m" using y1 by (simp add: m_def less_ceiling_iff)
  then have m0: "0 < m" by simp
  have my: "real_of_int m < y" "y \<le> real_of_int m + 1"
    by (simp_all add: m_def; linarith)+
  define k where "k = bitlen m"
  have k1: "1 \<le> k" using m0 by (simp add: k_def bitlen_alt_def)
  from bitlen_bounds[OF m0] have lo: "2 ^ nat (k - 1) \<le> m" and hi: "m < 2 ^ nat k"
    by (simp_all add: k_def)
  have e: "floor_log2 x = - k" using False by (simp add: floor_log2_def k_def m_def y_def)
  from hi have "m + 1 \<le> 2 ^ nat k" by simp
  then have "real_of_int (m + 1) \<le> real_of_int (2 ^ nat k)" by linarith
  with my have yk: "y \<le> 2 ^ nat k" by simp
  have "real_of_int (2 ^ nat (k - 1)) \<le> real_of_int m" using lo by linarith
  then have "(2::real) ^ nat (k - 1) \<le> real_of_int m" by simp
  with my have yk': "2 ^ nat (k - 1) < y" by linarith
  have xy: "x = 1 / y" using assms by (simp add: y_def)
  have 1: "pow2 (- k) \<le> x"
  proof -
    have "1 / 2 ^ nat k \<le> 1 / y" using yk y1 by (simp add: frac_le)
    then show ?thesis using k1 by (simp add: pow2_def xy)
  qed
  have 2: "x < pow2 (- k + 1)"
  proof (cases "k = 1")
    case True
    then show ?thesis using x1 by (simp add: pow2_def)
  next
    case False
    with k1 have k2: "2 \<le> k" by simp
    have "1 / y < 1 / 2 ^ nat (k - 1)" using yk' by (simp add: frac_less2)
    moreover have "nat (- (- k + 1)) = nat (k - 1)" by simp
    ultimately show ?thesis using k2 by (simp add: pow2_def xy)
  qed
  from 1 2 show ?thesis by (simp add: e)
qed

lemma round_half_even_near: "\<bar>real_of_int (round_half_even m) - m\<bar> \<le> 1 / 2"
  unfolding round_half_even_def Let_def by (auto; linarith)

lemma to_double_near:
  assumes "\<bar>x\<bar> < 2048"
  shows "\<exists>y. to_double x = Num y \<and> \<bar>y - x\<bar> \<le> 1 / 2 ^ 43"
proof (cases "x = 0")
  case True
  then show ?thesis by (simp add: to_double_def)
next
  case False
  define a where "a = \<bar>x\<bar>"
  have a0: "0 < a" using False by (simp add: a_def)
  define e where "e = max (floor_log2 a) (- 1022)"
  define q where "q = pow2 (e - 52)"
  define r where "r = real_of_int (round_half_even (a / q)) * q"
  have "pow2 (floor_log2 a) \<le> a" using floor_log2_bounds[OF a0] by simp
  also have "a < pow2 11" using assms by (simp add: a_def pow2_def)
  finally have "floor_log2 a < 11" by (rule pow2_less_imp)
  then have e10: "e - 52 \<le> - 42" by (simp add: e_def)
  have q0: "0 < q" by (simp add: q_def pow2_pos)
  have "q \<le> pow2 (- 42)" unfolding q_def using e10 by (rule pow2_mono)
  then have q42: "q \<le> 1 / 2 ^ 42" by (simp add: pow2_def)
  have "\<bar>real_of_int (round_half_even (a / q)) - a / q\<bar> \<le> 1 / 2"
    by (rule round_half_even_near)
  then have "\<bar>real_of_int (round_half_even (a / q)) - a / q\<bar> * q \<le> 1 / 2 * q"
    using q0 by (simp add: mult_right_mono)
  moreover have "\<bar>real_of_int (round_half_even (a / q)) - a / q\<bar> * q = \<bar>r - a\<bar>"
  proof -
    have "\<bar>real_of_int (round_half_even (a / q)) - a / q\<bar> * q
        = \<bar>(real_of_int (round_half_even (a / q)) - a / q) * q\<bar>"
      using q0 by (simp add: abs_mult)
    also have "(real_of_int (round_half_even (a / q)) - a / q) * q = r - a"
      using q0 by (simp add: r_def algebra_simps)
    finally show ?thesis .
  qed
  ultimately have "\<bar>r - a\<bar> \<le> 1 / 2 * q" by simp
  with q42 have ra: "\<bar>r - a\<bar> \<le> 1 / 2 ^ 43" by simp
  have "(1::real) / 2 ^ 43 \<le> 1" by simp
  with ra have "\<bar>r - a\<bar> \<le> 1" by linarith
  then have "r < 2049" using assms unfolding a_def by linarith
  then have no: "\<not> 2 ^ 1024 \<le> r" by simp
  have td: "to_double x = Num (sgn x * r)"
    using False no by (simp add: to_double_def Let_def r_def q_def e_def a_def)
  have "sgn x * r - x = sgn x * (r - a)"
    by (simp add: a_def algebra_simps abs_mult_sgn sgn_mult_abs)
  then have "\<bar>sgn x * r - x\<bar> = \<bar>r - a\<bar>"
    using False by (simp add: abs_mult)
  with ra td show ?thesis by simp
qed

lemma toFixed1_decimal: "\<exists>n::int. toFixed1 x = real_of_int n / 10"
proof -
  have "toFixed1 x = real_of_int ((if x < 0 then - 1 else if x = 0 then 0 else 1)
      * \<lfloor>\<bar>x\<bar> * 10 + 1 / 2\<rfloor>) / 10"
    by (simp add: toFixed1_def sgn_if)
  then show ?thesis by blast
qed

lemma toFixed1_near: "\<bar>toFixed1 x - x\<bar> \<le> 1 / 20"
proof -
  define f where "f = real_of_int \<lfloor>\<bar>x\<bar> * 10 + 1 / 2\<rfloor>"
  have "f \<le> \<bar>x\<bar> * 10 + 1 / 2" "\<bar>x\<bar> * 10 + 1 / 2 < f + 1"
    unfolding f_def by linarith+
  then have "\<bar>f / 10 - \<bar>x\<bar>\<bar> \<le> 1 / 20" by linarith
  moreover have "toFixed1 x - x = sgn x * (f / 10 - \<bar>x\<bar>)"
    by (simp add: toFixed1_def f_def algebra_simps abs_mult_sgn sgn_mult_abs)
  ultimately show ?thesis by (cases "x = 0") (simp_all add: abs_mult toFixed1_def)
qed

lemma celsiusToFahrenheit_near:
  assumes "- 90 \<le> c" and "c \<le> 60"
  shows "\<exists>f. celsiusToFahrenheit (Num c) = Num f \<and> \<bar>f - (c * 9 / 5 + 32)\<bar> \<le> 3 / 2 ^ 43"
proof -
  have "\<bar>c * 9\<bar> < 2048" using assms by (simp add: abs_less_iff)
  from to_double_near[OF this] obtain y1 where
    y1: "to_double (c * 9) = Num y1" "\<bar>y1 - c * 9\<bar> \<le> 1 / 2 ^ 43" by blast
  have s1: "(1::real) / 2 ^ 43 \<le> 1" by simp
  have "\<bar>y1 / 5\<bar> < 2048" using y1(2) s1 assms by (simp add: abs_less_iff; linarith)
  from to_double_near[OF this] obtain y2 where
    y2: "to_double (y1 / 5) = Num y2" "\<bar>y2 - y1 / 5\<bar> \<le> 1 / 2 ^ 43" by blast
  have "\<bar>y2 + 32\<bar> < 2048" using y1(2) y2(2) s1 assms by (simp add: abs_less_iff; linarith)
  from to_double_near[OF this] obtain y3 where
    y3: "to_double (y2 + 32) = Num y3" "\<bar>y3 - (y2 + 32)\<bar> \<le> 1 / 2 ^ 43" by blast
  have "celsiusToFahrenheit (Num c) = Num y3"
    by (simp add: celsiusToFahrenheit_def y1 y2 y3)
  moreover have "\<bar>y3 - (c * 9 / 5 + 32)\<bar> \<le> 3 / 2 ^ 43"
  proof -
    define d :: real where "d = 1 / 2 ^ 43"
    have "\<bar>y1 - c * 9\<bar> \<le> d" "\<bar>y2 - y1 / 5\<bar> \<le> d" "\<bar>y3 - (y2 + 32)\<bar> \<le> d"
      using y1(2) y2(2) y3(2) by (simp_all add: d_def)
    then have "\<bar>y3 - (c * 9 / 5 + 32)\<bar> \<le> 3 * d" by linarith
    then show ?thesis by (simp add: d_def)
  qed
  ultimately show ?thesis by blast
qed

lemma bitlen_numeral: "bitlen (numeral k) = bitlen (numeral k div 2) + 1"
  by (subst compute_bitlen) simp

lemma bitlen_one: "bitlen 1 = 1"
  by (subst compute_bitlen) simp

lemmas number_eval = to_double_def floor_log2_def round_half_even_def toFixed1_def
  celsiusToFahrenheit_def pow2_def bitlen_numeral bitlen_one Let_def

lemma ex_c2f_20: "parseFloat_toFixed1 (celsiusToFahrenheit (Num 20)) = Num 68"
  by (simp add: number_eval)

lemma ex_c2f_0: "parseFloat_toFixed1 (celsiusToFahrenheit (Num 0)) = Num 32"
  by (simp add: number_eval)

section \<open>The cache: one entry per key, time to live, cleanup\<close>

lemma cache_cleanup_loop:
  "cache (cleanup_loop now es s) =
     filter (\<lambda>(k, e). k \<notin> fst ` {(k', e') \<in> set es. now > expiresAt e'}) (cache s)"
proof (induction es arbitrary: s)
  case Nil
  then show ?case by simp
next
  case (Cons p es)
  obtain key entry where p: "p = (key, entry)" by (cases p)
  have img: "fst ` {(k', e'). (k', e') \<in> set (p # es) \<and> now > expiresAt e'} =
      (if now > expiresAt entry then {key} else {}) \<union>
      fst ` {(k', e'). (k', e') \<in> set es \<and> now > expiresAt e'}"
    unfolding p by force
  show ?case
    unfolding img
    unfolding p cleanup_loop.simps Cons.IH
    by (auto simp: AList.delete_eq intro!: filter_cong)
qed

lemma lastRefreshTimes_cleanup_loop:
  "lastRefreshTimes (cleanup_loop now es s) = lastRefreshTimes s"
  by (induction es arbitrary: s) auto

lemma cache_cleanup:
  assumes "distinct (map fst (cache s))"
  shows "cache (cleanup now s) = filter (\<lambda>(k, e). \<not> now > expiresAt e) (cache s)"
  unfolding cleanup_def cache_cleanup_loop
proof (rule filter_cong[OF refl])
  fix p assume pin: "p \<in> set (cache s)"
  obtain k e where p: "p = (k, e)" by (cases p)
  have "k \<in> fst ` {(k', e') \<in> set (cache s). now > expiresAt e'} \<longleftrightarrow> now > expiresAt e"
  proof
    assume "k \<in> fst ` {(k', e') \<in> set (cache s). now > expiresAt e'}"
    then obtain e' where e': "(k, e') \<in> set (cache s)" "now > expiresAt e'" by auto
    from assms pin e'(1) have "e' = e" unfolding p by (meson eq_key_imp_eq_value)
    with e' show "now > expiresAt e" by simp
  next
    assume "now > expiresAt e"
    with pin show "k \<in> fst ` {(k', e') \<in> set (cache s). now > expiresAt e'}"
      unfolding p by force
  qed
  then show "(case p of (k, e) \<Rightarrow> k \<notin> fst ` {(k', e') \<in> set (cache s). now > expiresAt e'}) =
             (case p of (k, e) \<Rightarrow> \<not> now > expiresAt e)"
    unfolding p by simp
qed

lemma distinct_cleanup:
  "distinct (map fst (cache s)) \<Longrightarrow> distinct (map fst (cache (cleanup now s)))"
  by (simp add: cache_cleanup distinct_map_filter)

lemma distinct_set: "distinct (map fst (cache s)) \<Longrightarrow> distinct (map fst (cache (WeatherCache_set now s key d)))"
  by (simp add: WeatherCache_set_def Let_def AList.distinct_update)

lemma distinct_get: "distinct (map fst (cache s)) \<Longrightarrow> distinct (map fst (cache (snd (WeatherCache_get now s key))))"
  by (simp add: WeatherCache_get_def AList.distinct_delete split: option.splits)

lemma map_of_filter_expired:
  "distinct (map fst al) \<Longrightarrow> map_of (filter (\<lambda>(k, e). P e) al) k =
     (case map_of al k of None \<Rightarrow> None | Some e \<Rightarrow> if P e then Some e else None)"
  apply (induction al)
   apply simp
  apply (auto split: option.splits simp: map_of_eq_None_iff image_iff)
  done

lemma map_of_get_other:
  "k \<noteq> key \<Longrightarrow> map_of (cache (snd (WeatherCache_get now s key))) k = map_of (cache s) k"
  by (simp add: WeatherCache_get_def AList.delete_conv split: option.splits)

lemma lastRefreshTimes_get:
  "lastRefreshTimes (snd (WeatherCache_get now s key)) = lastRefreshTimes s"
  by (simp add: WeatherCache_get_def split: option.splits)

lemma map_of_set_other:
  "k \<noteq> key \<Longrightarrow> map_of (cache (WeatherCache_set now s key d)) k = map_of (cache s) k"
  by (simp add: WeatherCache_set_def Let_def AList.update_conv')

lemma get_lastRefreshTimes_indep:
  "fst (WeatherCache_get now (s\<lparr>lastRefreshTimes := m\<rparr>) key) = fst (WeatherCache_get now s key) \<and>
   cache (snd (WeatherCache_get now (s\<lparr>lastRefreshTimes := m\<rparr>) key)) =
     cache (snd (WeatherCache_get now s key))"
  by (simp add: WeatherCache_get_def split: option.splits)

text \<open>
  Claim C2. An entry stored by \<^verbatim>\<open>set\<close> at time \<open>t\<close> has \<open>expiresAt = t + 900000\<close>
  (15 minutes). For such an entry, \<^verbatim>\<open>get\<close> at time \<open>now\<close> returns the stored snapshot and
  leaves the store as it is when \<open>now \<le> expiresAt\<close>; when \<open>now > expiresAt\<close> it returns
  nothing and the store it leaves has the entry deleted (the key is gone, nothing else
  changes). \<^verbatim>\<open>set\<close> replaces whatever the key had and touches neither another key nor the
  refresh times.
\<close>

theorem C2_get_set_ttl:
  assumes "map_of (cache s) key = Some \<lparr>data = d, expiresAt = t + 900000\<rparr>"
  shows "WeatherCache_get now s key =
           (if now \<le> t + 900000 then (Some d, s)
            else (None, s\<lparr>cache := AList.delete key (cache s)\<rparr>)) \<and>
         map_of (AList.delete key (cache s)) = (map_of (cache s))(key := None) \<and>
         key \<notin> fst ` set (AList.delete key (cache s)) \<and>
         map_of (cache (WeatherCache_set t' s key d')) =
           (map_of (cache s))(key \<mapsto> \<lparr>data = d', expiresAt = t' + 900000\<rparr>) \<and>
         lastRefreshTimes (WeatherCache_set t' s key d') = lastRefreshTimes s"
proof -
  have "WeatherCache_get now s key =
           (if now \<le> t + 900000 then (Some d, s)
            else (None, s\<lparr>cache := AList.delete key (cache s)\<rparr>))"
    using assms by (simp add: WeatherCache_get_def)
  moreover have "map_of (AList.delete key (cache s)) = (map_of (cache s))(key := None)"
    by (rule AList.delete_conv')
  moreover have "key \<notin> fst ` set (AList.delete key (cache s))"
    by (simp add: AList.delete_notin_dom)
  moreover have "map_of (cache (WeatherCache_set t' s key d')) =
           (map_of (cache s))(key \<mapsto> \<lparr>data = d', expiresAt = t' + 900000\<rparr>)"
    by (simp add: WeatherCache_set_def Let_def AList.update_conv')
  moreover have "lastRefreshTimes (WeatherCache_set t' s key d') = lastRefreshTimes s"
    by (simp add: WeatherCache_set_def Let_def)
  ultimately show ?thesis by blast
qed

theorem C2_get_set_ttl_witness:
  "map_of (cache (WeatherCache_set 1700000000000 WeatherCache_new ''Tokyo_celsius'' ex_tokyo))
       ''Tokyo_celsius'' = Some \<lparr>data = ex_tokyo, expiresAt = 1700000000000 + 900000\<rparr> \<and>
   WeatherCache_get 1700000900000
       (WeatherCache_set 1700000000000 WeatherCache_new ''Tokyo_celsius'' ex_tokyo) ''Tokyo_celsius''
     = (Some ex_tokyo, WeatherCache_set 1700000000000 WeatherCache_new ''Tokyo_celsius'' ex_tokyo) \<and>
   WeatherCache_get 1700000900001
       (WeatherCache_set 1700000000000 WeatherCache_new ''Tokyo_celsius'' ex_tokyo) ''Tokyo_celsius''
     = (None, WeatherCache_new)"
proof -
  let ?s = "WeatherCache_set 1700000000000 WeatherCache_new ''Tokyo_celsius'' ex_tokyo"
  have h: "map_of (cache ?s) ''Tokyo_celsius''
      = Some \<lparr>data = ex_tokyo, expiresAt = 1700000000000 + 900000\<rparr>"
    by (simp add: WeatherCache_set_def WeatherCache_new_def)
  have del: "?s\<lparr>cache := AList.delete ''Tokyo_celsius'' (cache ?s)\<rparr> = WeatherCache_new"
    by (simp add: WeatherCache_set_def WeatherCache_new_def AList.delete_eq)
  from C2_get_set_ttl[OF h, of 1700000900000] C2_get_set_ttl[OF h, of 1700000900001] h del
  show ?thesis by simp
qed

text \<open>
  Claim C7. One run of the periodic cleanup at time \<open>now\<close> keeps exactly the entries with
  \<open>expiresAt \<ge> now\<close>, in their order, and deletes every entry with \<open>expiresAt < now\<close>,
  read or not; the refresh times are not touched. A \<^verbatim>\<open>Map\<close> holds one entry per key,
  which is the hypothesis; \<^verbatim>\<open>set\<close>, \<^verbatim>\<open>get\<close> and the cleanup keep it (lemmas
  \<open>distinct_set\<close>, \<open>distinct_get\<close>, \<open>distinct_cleanup\<close>).
\<close>

theorem C7_cleanup_sweep:
  assumes "distinct (map fst (cache s))"
  shows "cache (cleanup now s) = filter (\<lambda>(key, entry). \<not> expiresAt entry < now) (cache s) \<and>
         map_of (cache (cleanup now s)) k =
           (case map_of (cache s) k of
              None \<Rightarrow> None
            | Some entry \<Rightarrow> if expiresAt entry < now then None else Some entry) \<and>
         lastRefreshTimes (cleanup now s) = lastRefreshTimes s"
proof -
  have c: "cache (cleanup now s) = filter (\<lambda>(key, entry). \<not> expiresAt entry < now) (cache s)"
    using cache_cleanup[OF assms, of now] by simp
  have m: "map_of (filter (\<lambda>(key, entry). \<not> expiresAt entry < now) (cache s)) k =
           (case map_of (cache s) k of
              None \<Rightarrow> None
            | Some entry \<Rightarrow> if \<not> expiresAt entry < now then Some entry else None)"
    using assms by (rule map_of_filter_expired)
  have l: "lastRefreshTimes (cleanup now s) = lastRefreshTimes s"
    by (simp add: cleanup_def lastRefreshTimes_cleanup_loop)
  from c m l show ?thesis by (auto split: option.splits)
qed

theorem C7_cleanup_sweep_witness:
  "distinct (map fst (cache
      \<lparr>cache = [(''Tokyo_celsius'', \<lparr>data = ex_tokyo, expiresAt = 1700000900000\<rparr>),
                 (''Tokyo_fahrenheit'',
                  \<lparr>data = ex_tokyo\<lparr>temperature := Num 68, fetchedAt := 1700000000100\<rparr>,
                   expiresAt = 1700000900100\<rparr>)],
       lastRefreshTimes = [''Tokyo'' \<mapsto> 1700000000100]\<rparr>)) \<and>
   cleanup 1700000900100
      \<lparr>cache = [(''Tokyo_celsius'', \<lparr>data = ex_tokyo, expiresAt = 1700000900000\<rparr>),
                 (''Tokyo_fahrenheit'',
                  \<lparr>data = ex_tokyo\<lparr>temperature := Num 68, fetchedAt := 1700000000100\<rparr>,
                   expiresAt = 1700000900100\<rparr>)],
       lastRefreshTimes = [''Tokyo'' \<mapsto> 1700000000100]\<rparr> =
      \<lparr>cache = [(''Tokyo_fahrenheit'',
                  \<lparr>data = ex_tokyo\<lparr>temperature := Num 68, fetchedAt := 1700000000100\<rparr>,
                   expiresAt = 1700000900100\<rparr>)],
       lastRefreshTimes = [''Tokyo'' \<mapsto> 1700000000100]\<rparr>"
proof -
  let ?s = "\<lparr>cache = [(''Tokyo_celsius'', \<lparr>data = ex_tokyo, expiresAt = 1700000900000\<rparr>),
                 (''Tokyo_fahrenheit'',
                  \<lparr>data = ex_tokyo\<lparr>temperature := Num 68, fetchedAt := 1700000000100\<rparr>,
                   expiresAt = 1700000900100\<rparr>)],
       lastRefreshTimes = [''Tokyo'' \<mapsto> 1700000000100]\<rparr>"
  have h: "distinct (map fst (cache ?s))" by simp
  from C7_cleanup_sweep[OF h, of 1700000900100] h
  have "cache (cleanup 1700000900100 ?s) = [(''Tokyo_fahrenheit'',
                  \<lparr>data = ex_tokyo\<lparr>temperature := Num 68, fetchedAt := 1700000000100\<rparr>,
                   expiresAt = 1700000900100\<rparr>)]"
    and "lastRefreshTimes (cleanup 1700000900100 ?s) = [''Tokyo'' \<mapsto> 1700000000100]"
    by simp_all
  then have "cleanup 1700000900100 ?s = \<lparr>cache = [(''Tokyo_fahrenheit'',
                  \<lparr>data = ex_tokyo\<lparr>temperature := Num 68, fetchedAt := 1700000000100\<rparr>,
                   expiresAt = 1700000900100\<rparr>)],
       lastRefreshTimes = [''Tokyo'' \<mapsto> 1700000000100]\<rparr>"
    by (cases "cleanup 1700000900100 ?s") simp
  with h show ?thesis by blast
qed

section \<open>The fetch: what a failure and a success leave behind\<close>

lemma fetch_try_throws_state:
  "fst (fetch_try rd cfg ax s loc u) = Inl err \<Longrightarrow> snd (fetch_try rd cfg ax s loc u) = s"
  by (auto simp: fetch_try_def Let_def split: if_splits AxiosResult.splits option.splits)

lemma fetch_try_returns:
  "fst (fetch_try rd cfg ax s loc u) = Inr wd \<Longrightarrow>
   snd (fetch_try rd cfg ax s loc u) =
     setLastRefreshTime (WeatherCache_set (now_set rd) s (cacheKey loc u) wd) loc (now_refresh rd)"
  by (auto simp: fetch_try_def Let_def split: if_splits AxiosResult.splits option.splits)

lemma fetch_try_fails:
  "isl (fst (fetch_try rd cfg (AxiosReject m) s loc u))"
  "isl (fst (fetch_try rd cfg (AxiosResponse None) s loc u))"
  "current body = None \<Longrightarrow> isl (fst (fetch_try rd cfg (AxiosResponse (Some body)) s loc u))"
  "current body = Some cur \<Longrightarrow> ToNumber (temp_c cur) = None \<Longrightarrow>
     isl (fst (fetch_try rd cfg (AxiosResponse (Some body)) s loc u))"
  "current body = Some cur \<Longrightarrow> ToNumber (temp_c cur) = Some n \<Longrightarrow>
     js_lt n (- 90) \<or> js_gt n 60 \<Longrightarrow>
     isl (fst (fetch_try rd cfg (AxiosResponse (Some body)) s loc u))"
  "\<not> truthy (apiKey cfg) \<Longrightarrow> isl (fst (fetch_try rd cfg ax s loc u))"
  by (simp_all add: fetch_try_def Let_def)

lemma fetch_try_events_agree:
  "fst (fetch_try rd cfg ax s loc u) = Inl err \<Longrightarrow>
     fetch_try_events cfg ax loc u \<noteq> [] \<and> last (fetch_try_events cfg ax loc u) = Throw err \<and>
     Call_set (cacheKey loc u) \<notin> set (fetch_try_events cfg ax loc u) \<and>
     Call_setLastRefreshTime loc \<notin> set (fetch_try_events cfg ax loc u)"
  "fst (fetch_try rd cfg ax s loc u) = Inr wd \<Longrightarrow>
     (\<exists>es. fetch_try_events cfg ax loc u = es @ [Call_set (cacheKey loc u), Call_setLastRefreshTime loc] \<and>
           (\<forall>e. Throw e \<notin> set es))"
  by (auto simp: fetch_try_def fetch_try_events_def Let_def
      split: if_splits AxiosResult.splits option.splits)

lemma fetchWeatherFromAPI_failure:
  assumes "fst (fetch_try rd cfg ax s loc u) = Inl err"
  shows "fetchWeatherFromAPI rd cfg ax s loc u =
     (case WeatherCache_get (now_catch rd) s (cacheKey loc u) of
        (Some cachedData, s') \<Rightarrow> (Inr (cachedData\<lparr>status := offline\<rparr>), s')
      | (None, s') \<Rightarrow> (Inl \<lparr>message = apiError_message err, code = ''WEATHER_API_ERROR''\<rparr>, s'))"
proof -
  from assms fetch_try_throws_state[OF assms]
  have "fetch_try rd cfg ax s loc u = (Inl err, s)"
    by (metis prod.collapse)
  then show ?thesis by (simp add: fetchWeatherFromAPI_def)
qed

lemma fetchWeatherFromAPI_success:
  assumes "fst (fetch_try rd cfg ax s loc u) = Inr wd"
  shows "fetchWeatherFromAPI rd cfg ax s loc u =
     (Inr wd, setLastRefreshTime (WeatherCache_set (now_set rd) s (cacheKey loc u) wd) loc (now_refresh rd))"
proof -
  from assms fetch_try_returns[OF assms]
  have "fetch_try rd cfg ax s loc u =
      (Inr wd, setLastRefreshTime (WeatherCache_set (now_set rd) s (cacheKey loc u) wd) loc (now_refresh rd))"
    by (metis prod.collapse)
  then show ?thesis by (simp add: fetchWeatherFromAPI_def)
qed

lemma fetch_try_lastRefreshTimes_indep:
  "fst (fetch_try rd cfg ax (s\<lparr>lastRefreshTimes := m\<rparr>) loc u) = fst (fetch_try rd cfg ax s loc u) \<and>
   cache (snd (fetch_try rd cfg ax (s\<lparr>lastRefreshTimes := m\<rparr>) loc u)) =
     cache (snd (fetch_try rd cfg ax s loc u))"
  by (simp add: fetch_try_def Let_def WeatherCache_set_def setLastRefreshTime_def
      split: AxiosResult.splits option.splits)

lemma fetchWeatherFromAPI_lastRefreshTimes_indep:
  "fst (fetchWeatherFromAPI rd cfg ax (s\<lparr>lastRefreshTimes := m\<rparr>) loc u) =
     fst (fetchWeatherFromAPI rd cfg ax s loc u) \<and>
   cache (snd (fetchWeatherFromAPI rd cfg ax (s\<lparr>lastRefreshTimes := m\<rparr>) loc u)) =
     cache (snd (fetchWeatherFromAPI rd cfg ax s loc u))"
proof (cases "fst (fetch_try rd cfg ax s loc u)")
  case (Inl err)
  then have i: "fst (fetch_try rd cfg ax (s\<lparr>lastRefreshTimes := m\<rparr>) loc u) = Inl err"
    by (simp add: fetch_try_lastRefreshTimes_indep)
  show ?thesis
    unfolding fetchWeatherFromAPI_failure[OF Inl] fetchWeatherFromAPI_failure[OF i]
    using get_lastRefreshTimes_indep[where now = "now_catch rd" and s = s and m = m and key = "cacheKey loc u"]
    by (auto split: prod.splits option.splits)
next
  case (Inr wd)
  then have i: "fst (fetch_try rd cfg ax (s\<lparr>lastRefreshTimes := m\<rparr>) loc u) = Inr wd"
    by (simp add: fetch_try_lastRefreshTimes_indep)
  show ?thesis
    unfolding fetchWeatherFromAPI_success[OF Inr] fetchWeatherFromAPI_success[OF i]
    by (simp add: WeatherCache_set_def setLastRefreshTime_def Let_def)
qed

lemma unit_string_inj: "l1 @ ''_'' @ unit_string u1 = l2 @ ''_'' @ unit_string u2 \<Longrightarrow> u1 = u2"
proof -
  assume a: "l1 @ ''_'' @ unit_string u1 = l2 @ ''_'' @ unit_string u2"
  then have "last (l1 @ ''_'' @ unit_string u1) = last (l2 @ ''_'' @ unit_string u2)" by simp
  then show ?thesis by (cases u1; cases u2) simp_all
qed

lemma cacheKey_inj: "cacheKey l1 u1 = cacheKey l2 u2 \<longleftrightarrow> l1 = l2 \<and> u1 = u2"
proof
  assume a: "cacheKey l1 u1 = cacheKey l2 u2"
  then have u: "u1 = u2" unfolding cacheKey_def by (rule unit_string_inj)
  with a show "l1 = l2 \<and> u1 = u2" unfolding cacheKey_def by simp
qed simp

lemma map_of_fetch_other:
  assumes "k \<noteq> cacheKey loc u"
  shows "map_of (cache (snd (fetchWeatherFromAPI rd cfg ax s loc u))) k = map_of (cache s) k"
proof (cases "fst (fetch_try rd cfg ax s loc u)")
  case (Inl err)
  have "snd (fetchWeatherFromAPI rd cfg ax s loc u) = snd (WeatherCache_get (now_catch rd) s (cacheKey loc u))"
    unfolding fetchWeatherFromAPI_failure[OF Inl] by (simp split: prod.splits option.splits)
  then show ?thesis using assms by (simp add: map_of_get_other)
next
  case (Inr wd)
  show ?thesis unfolding fetchWeatherFromAPI_success[OF Inr] using assms
    by (simp add: map_of_set_other setLastRefreshTime_def)
qed

lemma map_of_getCurrentWeather_other:
  assumes "k \<noteq> cacheKey loc u"
  shows "map_of (cache (snd (getCurrentWeather ng na rd cfg ax s loc u))) k = map_of (cache s) k"
proof (cases "fst (WeatherCache_get ng s (cacheKey loc u))")
  case None
  then have "getCurrentWeather ng na rd cfg ax s loc u =
     fetchWeatherFromAPI rd cfg ax (snd (WeatherCache_get ng s (cacheKey loc u))) loc u"
    by (auto simp: getCurrentWeather_def split: prod.splits)
  then show ?thesis using assms by (simp add: map_of_fetch_other map_of_get_other)
next
  case (Some d)
  then have "snd (getCurrentWeather ng na rd cfg ax s loc u) = snd (WeatherCache_get ng s (cacheKey loc u))"
    by (auto simp: getCurrentWeather_def Let_def split: prod.splits)
  then show ?thesis using assms by (simp add: map_of_get_other)
qed

lemma guard_interval:
  "(js_lt (Num c) (- 90) \<or> js_gt (Num c) 60) = (\<not> (- 90 \<le> c \<and> c \<le> 60))"
  by auto


lemmas fetch_eval = fetchWeatherFromAPI_def fetch_try_def cacheKey_def unit_symbol_def
  padStart_def toString.simps digit_def WeatherCache_set_def WeatherCache_get_def
  setLastRefreshTime_def WeatherCache_new_def

lemma ex_fetch_tokyo:
  "fetchWeatherFromAPI (ex_readings 1700000000000) ex_config (ex_response 20 ''Tokyo'')
     WeatherCache_new ''Tokyo'' celsius =
   (Inr \<lparr>temperature = Num 20, unit = [CHR 0xB0, CHR ''C''], location = ''Tokyo'',
         timestamp = ''Updated at 09:05'', status = online, fetchedAt = 1700000000000\<rparr>,
    \<lparr>cache = [(''Tokyo_celsius'',
         \<lparr>data = \<lparr>temperature = Num 20, unit = [CHR 0xB0, CHR ''C''], location = ''Tokyo'',
            timestamp = ''Updated at 09:05'', status = online, fetchedAt = 1700000000000\<rparr>,
          expiresAt = 1700000900000\<rparr>)],
     lastRefreshTimes = [''Tokyo'' \<mapsto> 1700000000000]\<rparr>)"
  by (simp add: fetch_eval number_eval)

lemma ex_fetch_paris_f:
  "fst (fetchWeatherFromAPI (ex_readings 1700000000000) ex_config (ex_response 20 ''Paris'')
     WeatherCache_new ''Paris'' fahrenheit) =
   Inr \<lparr>temperature = Num 68, unit = [CHR 0xB0, CHR ''F''], location = ''Paris'',
         timestamp = ''Updated at 09:05'', status = online, fetchedAt = 1700000000000\<rparr>"
  by (simp add: fetch_eval number_eval)

lemma ex_cache_eq:
  "ex_cache = \<lparr>cache = [(''Tokyo_celsius'', \<lparr>data = ex_tokyo, expiresAt = 1700000900000\<rparr>)],
               lastRefreshTimes = [''Tokyo'' \<mapsto> 1700000000000]\<rparr>"
  by (simp add: ex_fetch_tokyo)

section \<open>Cache keys\<close>

text \<open>
  Claim C8. The cache key \<^verbatim>\<open>`${location}_${unit}`\<close> determines the location and the
  unit: two requests have the same key exactly when they have the same location and the
  same unit (for every location string, so also for those of 1 to 50 code units). Hence
  a fetch or a lookup for the fahrenheit key of a location, whether it stores, deletes
  or fails, leaves the celsius entry of that location as it was.
\<close>

theorem C8_cacheKey_injective:
  "(cacheKey l1 u1 = cacheKey l2 u2 \<longleftrightarrow> l1 = l2 \<and> u1 = u2) \<and>
   map_of (cache (snd (fetchWeatherFromAPI rd cfg ax s loc fahrenheit))) (cacheKey loc celsius)
     = map_of (cache s) (cacheKey loc celsius) \<and>
   map_of (cache (snd (getCurrentWeather ng na rd cfg ax s loc fahrenheit))) (cacheKey loc celsius)
     = map_of (cache s) (cacheKey loc celsius)"
  by (simp add: cacheKey_inj map_of_fetch_other map_of_getCurrentWeather_other)

section \<open>Freshness of a cache hit\<close>

text \<open>
  Claim C3. On a cache hit (\<^verbatim>\<open>get\<close> returns a snapshot \<open>d\<close>), \<^verbatim>\<open>getCurrentWeather\<close>
  returns \<open>d\<close> with only its status replaced: \<^verbatim>\<open>outdated\<close> when the age
  \<open>now - fetchedAt d\<close> exceeds one hour (3600000 ms), \<^verbatim>\<open>online\<close> otherwise. The store after
  the call is the store before it, so the entry, its stored status included, is untouched.
\<close>

theorem C3_cache_hit_status:
  assumes "fst (WeatherCache_get now_get s (cacheKey loc u)) = Some d"
  shows "getCurrentWeather now_get now_age rd cfg ax s loc u =
           (Inr (d\<lparr>status := (if now_age - fetchedAt d > 3600000 then outdated else online)\<rparr>), s) \<and>
         snd (WeatherCache_get now_get s (cacheKey loc u)) = s \<and>
         (\<exists>entry. map_of (cache s) (cacheKey loc u) = Some entry \<and> data entry = d)"
proof -
  from assms obtain entry where e: "map_of (cache s) (cacheKey loc u) = Some entry"
    and n: "\<not> now_get > expiresAt entry" and d: "data entry = d"
    by (auto simp: WeatherCache_get_def split: option.splits if_splits)
  then have g: "WeatherCache_get now_get s (cacheKey loc u) = (Some d, s)"
    by (simp add: WeatherCache_get_def)
  then show ?thesis using e d by (simp add: getCurrentWeather_def Let_def)
qed

theorem C3_cache_hit_status_witness:
  "fst (WeatherCache_get 1700000600000 ex_cache (cacheKey ''Tokyo'' celsius)) = Some ex_tokyo \<and>
   getCurrentWeather 1700000600000 1700000600000 (ex_readings 1700000600000) ex_config
     (AxiosReject None) ex_cache ''Tokyo'' celsius = (Inr ex_tokyo, ex_cache)"
proof -
  have h: "fst (WeatherCache_get 1700000600000 ex_cache (cacheKey ''Tokyo'' celsius)) = Some ex_tokyo"
    unfolding ex_cache_eq by (simp add: WeatherCache_get_def cacheKey_def)
  from C3_cache_hit_status[OF h, of 1700000600000 "ex_readings 1700000600000" ex_config "AxiosReject None"] h
  show ?thesis by simp
qed

section \<open>A failed fetch\<close>

text \<open>
  Claim C9. When the \<^verbatim>\<open>try\<close> block throws, it has written nothing: every throw comes
  before \<^verbatim>\<open>set\<close> and \<^verbatim>\<open>setLastRefreshTime\<close>. The store that the whole call leaves is the
  store it found, except that the \<^verbatim>\<open>get\<close> of the \<^verbatim>\<open>catch\<close> block deletes the entry of
  this key when it has expired. The refresh times are unchanged, so the answer of the
  refresh gate, for every location and time, is what it was before the failed attempt.
\<close>

theorem C9_failed_fetch_frame:
  assumes "fst (fetch_try rd cfg ax s loc u) = Inl err"
  shows "snd (fetch_try rd cfg ax s loc u) = s \<and>
         snd (fetchWeatherFromAPI rd cfg ax s loc u) =
           (case map_of (cache s) (cacheKey loc u) of
              None \<Rightarrow> s
            | Some entry \<Rightarrow>
                if now_catch rd > expiresAt entry
                then s\<lparr>cache := AList.delete (cacheKey loc u) (cache s)\<rparr>
                else s) \<and>
         lastRefreshTimes (snd (fetchWeatherFromAPI rd cfg ax s loc u)) = lastRefreshTimes s \<and>
         checkRefreshEligibility now (snd (fetchWeatherFromAPI rd cfg ax s loc u)) l =
           checkRefreshEligibility now s l"
proof -
  have a: "snd (fetch_try rd cfg ax s loc u) = s"
    using assms by (rule fetch_try_throws_state)
  have b: "snd (fetchWeatherFromAPI rd cfg ax s loc u) =
      snd (WeatherCache_get (now_catch rd) s (cacheKey loc u))"
    unfolding fetchWeatherFromAPI_failure[OF assms] by (simp split: prod.splits option.splits)
  have c: "snd (WeatherCache_get (now_catch rd) s (cacheKey loc u)) =
           (case map_of (cache s) (cacheKey loc u) of
              None \<Rightarrow> s
            | Some entry \<Rightarrow>
                if now_catch rd > expiresAt entry
                then s\<lparr>cache := AList.delete (cacheKey loc u) (cache s)\<rparr>
                else s)"
    by (simp add: WeatherCache_get_def split: option.splits)
  have d: "lastRefreshTimes (snd (fetchWeatherFromAPI rd cfg ax s loc u)) = lastRefreshTimes s"
    unfolding b by (rule lastRefreshTimes_get)
  have e: "checkRefreshEligibility now (snd (fetchWeatherFromAPI rd cfg ax s loc u)) l =
           checkRefreshEligibility now s l"
    by (simp add: checkRefreshEligibility_def getLastRefreshTime_def d)
  from a b c d e show ?thesis by simp
qed

theorem C9_failed_fetch_frame_witness:
  "fst (fetch_try (ex_readings 1700000900001) ex_config (AxiosReject None) ex_cache ''Tokyo'' celsius)
     = Inl (AxiosError None) \<and>
   snd (fetchWeatherFromAPI (ex_readings 1700000900001) ex_config (AxiosReject None) ex_cache
     ''Tokyo'' celsius) = \<lparr>cache = [], lastRefreshTimes = [''Tokyo'' \<mapsto> 1700000000000]\<rparr> \<and>
   \<not> checkRefreshEligibility 1700000020000
     (snd (fetchWeatherFromAPI (ex_readings 1700000900001) ex_config (AxiosReject None) ex_cache
        ''Tokyo'' celsius)) ''Tokyo''"
proof -
  have h: "fst (fetch_try (ex_readings 1700000900001) ex_config (AxiosReject None) ex_cache ''Tokyo'' celsius)
     = Inl (AxiosError None)"
    by (simp add: fetch_try_def)
  have g: "\<not> checkRefreshEligibility 1700000020000 ex_cache ''Tokyo''"
    unfolding ex_cache_eq by (simp add: checkRefreshEligibility_def getLastRefreshTime_def)
  from C9_failed_fetch_frame[OF h, of 1700000020000 "''Tokyo''"] h g
  show ?thesis unfolding ex_cache_eq
    by (simp add: cacheKey_def AList.delete_eq checkRefreshEligibility_def getLastRefreshTime_def)
qed

text \<open>
  Claim C1, as the code has it. When the \<^verbatim>\<open>try\<close> block throws (lemma \<open>fetch_try_fails\<close>
  lists the steps that do), the fallback is \<^verbatim>\<open>weatherCache.get\<close>, which honours the time
  to live: an entry of this exact key that has not expired at that moment
  (\<open>now \<le> expiresAt\<close>) is returned with status \<^verbatim>\<open>offline\<close> and every other field as
  stored; with no entry, or with an expired one, the call throws the error with code
  \<^verbatim>\<open>WEATHER_API_ERROR\<close>.
\<close>

theorem C1_offline_fallback:
  assumes "fst (fetch_try rd cfg ax s loc u) = Inl err"
  shows "fst (fetchWeatherFromAPI rd cfg ax s loc u) =
           (case map_of (cache s) (cacheKey loc u) of
              None \<Rightarrow> Inl \<lparr>message = apiError_message err, code = ''WEATHER_API_ERROR''\<rparr>
            | Some entry \<Rightarrow>
                if now_catch rd \<le> expiresAt entry
                then Inr \<lparr>temperature = temperature (data entry), unit = unit (data entry),
                          location = location (data entry), timestamp = timestamp (data entry),
                          status = offline, fetchedAt = fetchedAt (data entry)\<rparr>
                else Inl \<lparr>message = apiError_message err, code = ''WEATHER_API_ERROR''\<rparr>)"
  unfolding fetchWeatherFromAPI_failure[OF assms]
  by (simp add: WeatherCache_get_def split: option.splits)

theorem C1_offline_fallback_witness:
  "fst (fetch_try (ex_readings 1700000900000) ex_config (AxiosReject None) ex_cache ''Tokyo'' celsius)
     = Inl (AxiosError None) \<and>
   fst (fetchWeatherFromAPI (ex_readings 1700000900000) ex_config (AxiosReject None) ex_cache
     ''Tokyo'' celsius) = Inr (ex_tokyo\<lparr>status := offline\<rparr>) \<and>
   fst (fetchWeatherFromAPI (ex_readings 1700000900000) ex_config (AxiosReject None) ex_cache
     ''Atlantis'' celsius) =
     Inl \<lparr>message = ''Failed to fetch weather data'', code = ''WEATHER_API_ERROR''\<rparr>"
proof -
  have h: "fst (fetch_try (ex_readings 1700000900000) ex_config (AxiosReject None) ex_cache
      ''Tokyo'' celsius) = Inl (AxiosError None)"
    by (simp add: fetch_try_def)
  have h': "fst (fetch_try (ex_readings 1700000900000) ex_config (AxiosReject None) ex_cache
      ''Atlantis'' celsius) = Inl (AxiosError None)"
    by (simp add: fetch_try_def)
  have m: "map_of (cache ex_cache) (cacheKey ''Tokyo'' celsius) =
      Some \<lparr>data = ex_tokyo, expiresAt = 1700000900000\<rparr>"
    "map_of (cache ex_cache) (cacheKey ''Atlantis'' celsius) = None"
    by (simp_all add: ex_cache_eq cacheKey_def)
  from C1_offline_fallback[OF h] C1_offline_fallback[OF h'] h m
  show ?thesis by simp
qed

text \<open>
  The claim as stated asks for the stored snapshot even after its expiry. One
  millisecond after the expiry of the Tokyo entry a failing fetch throws, and the entry is
  deleted.
\<close>

theorem C1_stale_entry_counterexample:
  "map_of (cache ex_cache) (cacheKey ''Tokyo'' celsius) =
     Some \<lparr>data = ex_tokyo, expiresAt = 1700000900000\<rparr> \<and>
   fst (fetch_try (ex_readings 1700000900001) ex_config (AxiosReject None) ex_cache
     ''Tokyo'' celsius) = Inl (AxiosError None) \<and>
   fst (fetchWeatherFromAPI (ex_readings 1700000900001) ex_config (AxiosReject None) ex_cache
     ''Tokyo'' celsius) =
     Inl \<lparr>message = ''Failed to fetch weather data'', code = ''WEATHER_API_ERROR''\<rparr> \<and>
   cache (snd (fetchWeatherFromAPI (ex_readings 1700000900001) ex_config (AxiosReject None)
     ex_cache ''Tokyo'' celsius)) = []"
  unfolding ex_cache_eq
  by (simp add: cacheKey_def fetchWeatherFromAPI_def fetch_try_def WeatherCache_get_def
      AList.delete_eq)

section \<open>The plausibility guard\<close>

text \<open>
  Claim C5, as the code has it. With a key configured and a response that has
  \<^verbatim>\<open>current\<close>, let \<open>n\<close> be the number that \<^verbatim>\<open>temp_c\<close> converts to (where the conversion
  throws, the block throws a \<^verbatim>\<open>TypeError\<close> with the store untouched). When the guard
  \<^verbatim>\<open>tempCelsius < -90 || tempCelsius > 60\<close> holds of \<open>n\<close>, the \<^verbatim>\<open>try\<close> block throws the
  out-of-range error with the store untouched, and the call ends in the \<^verbatim>\<open>catch\<close> block:
  a live earlier snapshot marked offline, or the \<^verbatim>\<open>WEATHER_API_ERROR\<close>; nothing derived
  from the implausible value is returned or stored. What the block has done by then is
  the upstream call and, for the unit fahrenheit, the call of \<^verbatim>\<open>celsiusToFahrenheit\<close>:
  the conversion comes one statement before the guard, and the throw discards its
  value. When the guard does not hold, the value passes: the call stores and returns a
  snapshot with status \<^verbatim>\<open>online\<close> whose temperature is the value (converted for
  fahrenheit) rounded to one decimal, or it throws a \<^verbatim>\<open>TypeError\<close>, on \<^verbatim>\<open>toFixed\<close> of a
  value that is not a number (unit celsius) or on a missing \<^verbatim>\<open>location\<close>. For a number
  \<open>c\<close> the guard holds exactly outside the closed interval from \<open>-90\<close> to \<open>60\<close>, and it
  holds for both infinities; a missing \<^verbatim>\<open>temp_c\<close> converts to NaN, of which the guard
  does not hold.
\<close>

theorem C5_plausibility_guard:
  assumes "truthy (apiKey cfg)" and "current body = Some cur"
  shows "(case ToNumber (temp_c cur) of
            None \<Rightarrow> fetch_try rd cfg (AxiosResponse (Some body)) s loc u = (Inl TypeError, s)
          | Some n \<Rightarrow>
              if js_lt n (- 90) \<or> js_gt n 60
              then fetch_try rd cfg (AxiosResponse (Some body)) s loc u =
                     (Inl (Error ''Temperature value outside plausible range''), s) \<and>
                   fetchWeatherFromAPI rd cfg (AxiosResponse (Some body)) s loc u =
                     (case WeatherCache_get (now_catch rd) s (cacheKey loc u) of
                        (Some cachedData, s') \<Rightarrow> (Inr (cachedData\<lparr>status := offline\<rparr>), s')
                      | (None, s') \<Rightarrow>
                          (Inl \<lparr>message = ''Failed to fetch weather data'',
                                code = ''WEATHER_API_ERROR''\<rparr>, s')) \<and>
                   fetch_try_events cfg (AxiosResponse (Some body)) loc u =
                     Call_axios_get #
                     (if u = fahrenheit then [Call_celsiusToFahrenheit (temp_c cur)] else []) @
                     [Throw (Error ''Temperature value outside plausible range'')]
              else (case as_number (if u = fahrenheit then JNumber (celsiusToFahrenheit n)
                                    else temp_c cur) of
                      None \<Rightarrow>
                        fetch_try rd cfg (AxiosResponse (Some body)) s loc u = (Inl TypeError, s)
                    | Some t \<Rightarrow>
                        (case location_obj body of
                           None \<Rightarrow>
                             fetch_try rd cfg (AxiosResponse (Some body)) s loc u = (Inl TypeError, s)
                         | Some l \<Rightarrow>
                             (\<exists>wd. fetchWeatherFromAPI rd cfg (AxiosResponse (Some body)) s loc u =
                                (Inr wd, setLastRefreshTime
                                   (WeatherCache_set (now_set rd) s (cacheKey loc u) wd) loc
                                   (now_refresh rd)) \<and>
                                status wd = online \<and> temperature wd = parseFloat_toFixed1 t)))) \<and>
         ToNumber (JNumber (Num c)) = Some (Num c) \<and>
         (js_lt (Num c) (- 90) \<or> js_gt (Num c) 60) = (\<not> (- 90 \<le> c \<and> c \<le> 60)) \<and>
         js_gt PosInf 60 \<and> js_lt NegInf (- 90) \<and>
         ToNumber JUndefined = Some NaN \<and> \<not> js_lt NaN (- 90) \<and> \<not> js_gt NaN 60"
proof -
  have g: "(js_lt (Num c) (- 90) \<or> js_gt (Num c) 60) = (\<not> (- 90 \<le> c \<and> c \<le> 60))"
    by (rule guard_interval)
  show ?thesis
  proof (cases "ToNumber (temp_c cur)")
    case None
    with assms have "fetch_try rd cfg (AxiosResponse (Some body)) s loc u = (Inl TypeError, s)"
      by (simp add: fetch_try_def Let_def)
    with None g show ?thesis by simp
  next
    case (Some n)
    show ?thesis
    proof (cases "js_lt n (- 90) \<or> js_gt n 60")
      case True
      then have t: "fetch_try rd cfg (AxiosResponse (Some body)) s loc u =
          (Inl (Error ''Temperature value outside plausible range''), s)"
        using assms Some by (simp add: fetch_try_def Let_def)
      then have "fst (fetch_try rd cfg (AxiosResponse (Some body)) s loc u) =
          Inl (Error ''Temperature value outside plausible range'')" by simp
      note f = fetchWeatherFromAPI_failure[OF this, unfolded apiError_message.simps]
      have e: "fetch_try_events cfg (AxiosResponse (Some body)) loc u =
          Call_axios_get #
          (if u = fahrenheit then [Call_celsiusToFahrenheit (temp_c cur)] else []) @
          [Throw (Error ''Temperature value outside plausible range'')]"
        using assms Some True by (simp add: fetch_try_events_def Let_def)
      from f t e True Some g show ?thesis by simp
    next
      case False
      show ?thesis
      proof (cases "as_number (if u = fahrenheit then JNumber (celsiusToFahrenheit n)
                                else temp_c cur)")
        case None
        with False Some assms
        have "fetch_try rd cfg (AxiosResponse (Some body)) s loc u = (Inl TypeError, s)"
          by (simp add: fetch_try_def Let_def)
        with False Some None g show ?thesis by simp
      next
        case t: (Some t)
        show ?thesis
        proof (cases "location_obj body")
          case None
          with False Some t assms
          have "fetch_try rd cfg (AxiosResponse (Some body)) s loc u = (Inl TypeError, s)"
            by (simp add: fetch_try_def Let_def)
          with False Some t None g show ?thesis by simp
        next
          case l: (Some l)
          define wd where "wd = \<lparr>temperature = parseFloat_toFixed1 t,
              unit = unit_symbol u, location = name l,
              timestamp = ''Updated at '' @ padStart (toString (date_hours rd)) 2 CHR ''0''
                                   @ '':'' @ padStart (toString (date_minutes rd)) 2 CHR ''0'',
              status = online, fetchedAt = now_fetchedAt rd\<rparr>"
          from False Some t l assms
          have "fst (fetch_try rd cfg (AxiosResponse (Some body)) s loc u) = Inr wd"
            by (simp add: fetch_try_def Let_def wd_def)
          from fetchWeatherFromAPI_success[OF this]
          have "\<exists>wd. fetchWeatherFromAPI rd cfg (AxiosResponse (Some body)) s loc u =
                           (Inr wd, setLastRefreshTime
                              (WeatherCache_set (now_set rd) s (cacheKey loc u) wd) loc
                              (now_refresh rd)) \<and>
                           status wd = online \<and> temperature wd = parseFloat_toFixed1 t"
            by (intro exI[of _ wd]) (simp add: wd_def)
          with False Some t l g show ?thesis by simp
        qed
      qed
    qed
  qed
qed

theorem C5_plausibility_guard_witness:
  "truthy (apiKey ex_config) \<and>
   fetch_try (ex_readings 1700000000000) ex_config (ex_response 65 ''Tokyo'') WeatherCache_new
     ''Tokyo'' fahrenheit =
     (Inl (Error ''Temperature value outside plausible range''), WeatherCache_new) \<and>
   fetchWeatherFromAPI (ex_readings 1700000000000) ex_config (ex_response 65 ''Tokyo'')
     WeatherCache_new ''Tokyo'' fahrenheit =
     (Inl \<lparr>message = ''Failed to fetch weather data'', code = ''WEATHER_API_ERROR''\<rparr>,
      WeatherCache_new) \<and>
   fetchWeatherFromAPI (ex_readings 1700000000000) ex_config (ex_response (- 95) ''Tokyo'')
     WeatherCache_new ''Tokyo'' celsius =
     (Inl \<lparr>message = ''Failed to fetch weather data'', code = ''WEATHER_API_ERROR''\<rparr>,
      WeatherCache_new) \<and>
   \<not> isl (fst (fetchWeatherFromAPI (ex_readings 1700000000000) ex_config (ex_response 60 ''Tokyo'')
     WeatherCache_new ''Tokyo'' celsius)) \<and>
   \<not> isl (fst (fetchWeatherFromAPI (ex_readings 1700000000000) ex_config
     (ex_response (- 90) ''Tokyo'') WeatherCache_new ''Tokyo'' celsius)) \<and>
   (\<exists>wd s'. fetchWeatherFromAPI (ex_readings 1700000000000) ex_config
        (AxiosResponse (Some \<lparr>current = Some \<lparr>temp_c = JUndefined\<rparr>,
           location_obj = Some \<lparr>name = ''Tokyo''\<rparr>\<rparr>))
        WeatherCache_new ''Tokyo'' fahrenheit = (Inr wd, s') \<and>
      status wd = online \<and> temperature wd = NaN) \<and>
   fetch_try (ex_readings 1700000000000) ex_config
        (AxiosResponse (Some \<lparr>current = Some \<lparr>temp_c = JUndefined\<rparr>,
           location_obj = Some \<lparr>name = ''Tokyo''\<rparr>\<rparr>))
        WeatherCache_new ''Tokyo'' celsius = (Inl TypeError, WeatherCache_new)"
proof -
  have k: "truthy (apiKey ex_config)" by simp
  have g: "WeatherCache_get 1700000000000 WeatherCache_new key = (None, WeatherCache_new)" for key
    by (simp add: WeatherCache_get_def WeatherCache_new_def)
  have n: "celsiusToFahrenheit NaN = NaN" by (simp add: celsiusToFahrenheit_def)
  note t = C5_plausibility_guard[OF k, where rd = "ex_readings 1700000000000"
      and s = WeatherCache_new and loc = "''Tokyo''" and c = 0]
  from t[where body = "\<lparr>current = Some \<lparr>temp_c = JNumber (Num 65)\<rparr>, location_obj = Some \<lparr>name = ''Tokyo''\<rparr>\<rparr>"
      and cur = "\<lparr>temp_c = JNumber (Num 65)\<rparr>" and u = fahrenheit]
  have 1: "fetch_try (ex_readings 1700000000000) ex_config (ex_response 65 ''Tokyo'') WeatherCache_new
     ''Tokyo'' fahrenheit =
     (Inl (Error ''Temperature value outside plausible range''), WeatherCache_new)"
    and 2: "fetchWeatherFromAPI (ex_readings 1700000000000) ex_config (ex_response 65 ''Tokyo'')
     WeatherCache_new ''Tokyo'' fahrenheit =
     (Inl \<lparr>message = ''Failed to fetch weather data'', code = ''WEATHER_API_ERROR''\<rparr>,
      WeatherCache_new)"
    by (simp_all add: g)
  from t[where body = "\<lparr>current = Some \<lparr>temp_c = JNumber (Num (- 95))\<rparr>, location_obj = Some \<lparr>name = ''Tokyo''\<rparr>\<rparr>"
      and cur = "\<lparr>temp_c = JNumber (Num (- 95))\<rparr>" and u = celsius]
  have 3: "fetchWeatherFromAPI (ex_readings 1700000000000) ex_config (ex_response (- 95) ''Tokyo'')
     WeatherCache_new ''Tokyo'' celsius =
     (Inl \<lparr>message = ''Failed to fetch weather data'', code = ''WEATHER_API_ERROR''\<rparr>,
      WeatherCache_new)"
    by (simp add: g)
  from t[where body = "\<lparr>current = Some \<lparr>temp_c = JNumber (Num 60)\<rparr>, location_obj = Some \<lparr>name = ''Tokyo''\<rparr>\<rparr>"
      and cur = "\<lparr>temp_c = JNumber (Num 60)\<rparr>" and u = celsius]
  have 4: "\<not> isl (fst (fetchWeatherFromAPI (ex_readings 1700000000000) ex_config
     (ex_response 60 ''Tokyo'') WeatherCache_new ''Tokyo'' celsius))"
    by auto
  from t[where body = "\<lparr>current = Some \<lparr>temp_c = JNumber (Num (- 90))\<rparr>, location_obj = Some \<lparr>name = ''Tokyo''\<rparr>\<rparr>"
      and cur = "\<lparr>temp_c = JNumber (Num (- 90))\<rparr>" and u = celsius]
  have 5: "\<not> isl (fst (fetchWeatherFromAPI (ex_readings 1700000000000) ex_config
     (ex_response (- 90) ''Tokyo'') WeatherCache_new ''Tokyo'' celsius))"
    by auto
  from t[where body = "\<lparr>current = Some \<lparr>temp_c = JUndefined\<rparr>, location_obj = Some \<lparr>name = ''Tokyo''\<rparr>\<rparr>"
      and cur = "\<lparr>temp_c = JUndefined\<rparr>" and u = fahrenheit]
  have 6: "\<exists>wd s'. fetchWeatherFromAPI (ex_readings 1700000000000) ex_config
        (AxiosResponse (Some \<lparr>current = Some \<lparr>temp_c = JUndefined\<rparr>,
           location_obj = Some \<lparr>name = ''Tokyo''\<rparr>\<rparr>))
        WeatherCache_new ''Tokyo'' fahrenheit = (Inr wd, s') \<and>
      status wd = online \<and> temperature wd = NaN"
    by (auto simp: n)
  from t[where body = "\<lparr>current = Some \<lparr>temp_c = JUndefined\<rparr>, location_obj = Some \<lparr>name = ''Tokyo''\<rparr>\<rparr>"
      and cur = "\<lparr>temp_c = JUndefined\<rparr>" and u = celsius]
  have 7: "fetch_try (ex_readings 1700000000000) ex_config
        (AxiosResponse (Some \<lparr>current = Some \<lparr>temp_c = JUndefined\<rparr>,
           location_obj = Some \<lparr>name = ''Tokyo''\<rparr>\<rparr>))
        WeatherCache_new ''Tokyo'' celsius = (Inl TypeError, WeatherCache_new)"
    by simp
  from k 1 2 3 4 5 6 7 show ?thesis by blast
qed

text \<open>
  The claim as stated has the fetch fail before the value is converted. For Celsius 65
  and the unit fahrenheit the block calls \<^verbatim>\<open>celsiusToFahrenheit\<close> on the value, which
  gives 149, and throws the out-of-range error in the statement after it.
\<close>

theorem C5_conversion_before_guard_counterexample:
  "fetch_try_events ex_config (ex_response 65 ''Tokyo'') ''Tokyo'' fahrenheit =
     [Call_axios_get, Call_celsiusToFahrenheit (JNumber (Num 65)),
      Throw (Error ''Temperature value outside plausible range'')] \<and>
   celsiusToFahrenheit (Num 65) = Num 149 \<and>
   fetch_try (ex_readings 1700000000000) ex_config (ex_response 65 ''Tokyo'') WeatherCache_new
     ''Tokyo'' fahrenheit =
     (Inl (Error ''Temperature value outside plausible range''), WeatherCache_new)"
  by (simp add: fetch_try_events_def fetch_try_def number_eval)

section \<open>The conversion to Fahrenheit\<close>

text \<open>
  Claim C6. For the unit fahrenheit and a response that passes every check, the
  temperature returned and stored is \<^verbatim>\<open>parseFloat(celsiusToFahrenheit(c).toFixed(1))\<close>,
  a function of \<open>c\<close> alone. The converted value \<open>f\<close> is \<open>c * 9 / 5 + 32\<close> up to the
  rounding of three binary64 operations (at most \<open>3 / 2 ^ 43\<close>), the printed decimal is
  a multiple \<open>n / 10\<close> of one tenth within \<open>1 / 20\<close> of \<open>f\<close>, and the result is the
  double nearest to that decimal. Celsius 20 gives exactly 68 and Celsius 0 exactly 32.
\<close>

theorem C6_fahrenheit_conversion:
  assumes "truthy (apiKey cfg)" and "current body = Some cur" and "temp_c cur = JNumber (Num c)"
    and "- 90 \<le> c" and "c \<le> 60" and "location_obj body = Some l"
  shows "(\<exists>wd s' f n.
           fetchWeatherFromAPI rd cfg (AxiosResponse (Some body)) s loc fahrenheit = (Inr wd, s') \<and>
           map_of (cache s') (cacheKey loc fahrenheit) =
             Some \<lparr>data = wd, expiresAt = now_set rd + 900000\<rparr> \<and>
           temperature wd = parseFloat_toFixed1 (celsiusToFahrenheit (Num c)) \<and>
           celsiusToFahrenheit (Num c) = Num f \<and> \<bar>f - (c * 9 / 5 + 32)\<bar> \<le> 3 / 2 ^ 43 \<and>
           toFixed1 f = real_of_int n / 10 \<and> \<bar>real_of_int n / 10 - f\<bar> \<le> 1 / 20 \<and>
           temperature wd = to_double (real_of_int n / 10)) \<and>
         parseFloat_toFixed1 (celsiusToFahrenheit (Num 20)) = Num 68 \<and>
         parseFloat_toFixed1 (celsiusToFahrenheit (Num 0)) = Num 32"
proof -
  define wd where "wd = \<lparr>temperature = parseFloat_toFixed1 (celsiusToFahrenheit (Num c)),
      unit = unit_symbol fahrenheit, location = name l,
      timestamp = ''Updated at '' @ padStart (toString (date_hours rd)) 2 CHR ''0''
                           @ '':'' @ padStart (toString (date_minutes rd)) 2 CHR ''0'',
      status = online, fetchedAt = now_fetchedAt rd\<rparr>"
  have "fst (fetch_try rd cfg (AxiosResponse (Some body)) s loc fahrenheit) = Inr wd"
    using assms by (simp add: fetch_try_def Let_def wd_def)
  note r = fetchWeatherFromAPI_success[OF this]
  have m: "map_of (cache (setLastRefreshTime
        (WeatherCache_set (now_set rd) s (cacheKey loc fahrenheit) wd) loc (now_refresh rd)))
        (cacheKey loc fahrenheit) = Some \<lparr>data = wd, expiresAt = now_set rd + 900000\<rparr>"
    by (simp add: setLastRefreshTime_def WeatherCache_set_def Let_def AList.update_conv')
  from celsiusToFahrenheit_near[OF assms(4,5)] obtain f where
    f: "celsiusToFahrenheit (Num c) = Num f" "\<bar>f - (c * 9 / 5 + 32)\<bar> \<le> 3 / 2 ^ 43" by blast
  from toFixed1_decimal[of f] obtain n :: int where n: "toFixed1 f = real_of_int n / 10" by blast
  have nf: "\<bar>real_of_int n / 10 - f\<bar> \<le> 1 / 20" using toFixed1_near[of f] by (simp add: n)
  have t: "temperature wd = to_double (real_of_int n / 10)"
    by (simp add: wd_def f n)
  have t': "temperature wd = parseFloat_toFixed1 (celsiusToFahrenheit (Num c))"
    by (simp add: wd_def)
  from r m f n nf t t' ex_c2f_20 ex_c2f_0 show ?thesis by blast
qed

theorem C6_fahrenheit_conversion_witness:
  "truthy (apiKey ex_config) \<and> (- 90 :: real) \<le> 20 \<and> (20 :: real) \<le> 60 \<and>
   (\<exists>wd s'. fetchWeatherFromAPI (ex_readings 1700000000000) ex_config (ex_response 20 ''Paris'')
        WeatherCache_new ''Paris'' fahrenheit = (Inr wd, s') \<and> temperature wd = Num 68) \<and>
   (\<exists>wd s'. fetchWeatherFromAPI (ex_readings 1700000000000) ex_config (ex_response 0 ''Paris'')
        WeatherCache_new ''Paris'' fahrenheit = (Inr wd, s') \<and> temperature wd = Num 32)"
proof -
  have k: "truthy (apiKey ex_config)" by simp
  have a: "(- 90 :: real) \<le> 20" "(20 :: real) \<le> 60" "(- 90 :: real) \<le> 0" "(0 :: real) \<le> 60"
    by simp_all
  from C6_fahrenheit_conversion[OF k _ _ a(1,2), where rd = "ex_readings 1700000000000"
      and body = "\<lparr>current = Some \<lparr>temp_c = JNumber (Num 20)\<rparr>, location_obj = Some \<lparr>name = ''Paris''\<rparr>\<rparr>"
      and cur = "\<lparr>temp_c = JNumber (Num 20)\<rparr>" and l = "\<lparr>name = ''Paris''\<rparr>"
      and s = WeatherCache_new and loc = "''Paris''"]
  have 1: "\<exists>wd s'. fetchWeatherFromAPI (ex_readings 1700000000000) ex_config (ex_response 20 ''Paris'')
        WeatherCache_new ''Paris'' fahrenheit = (Inr wd, s') \<and> temperature wd = Num 68"
    by auto
  from C6_fahrenheit_conversion[OF k _ _ a(3,4), where rd = "ex_readings 1700000000000"
      and body = "\<lparr>current = Some \<lparr>temp_c = JNumber (Num 0)\<rparr>, location_obj = Some \<lparr>name = ''Paris''\<rparr>\<rparr>"
      and cur = "\<lparr>temp_c = JNumber (Num 0)\<rparr>" and l = "\<lparr>name = ''Paris''\<rparr>"
      and s = WeatherCache_new and loc = "''Paris''"]
  have 2: "\<exists>wd s'. fetchWeatherFromAPI (ex_readings 1700000000000) ex_config (ex_response 0 ''Paris'')
        WeatherCache_new ''Paris'' fahrenheit = (Inr wd, s') \<and> temperature wd = Num 32"
    by auto
  from k a 1 2 show ?thesis by blast
qed

section \<open>The refresh gate\<close>




text \<open>
  Claim C10. The service function \<^verbatim>\<open>refreshWeather\<close> is \<^verbatim>\<open>fetchWeatherFromAPI\<close>. It
  never consults the refresh times: replacing them by any others changes neither what it
  returns nor what it does to the cache, so a caller of the service function is never
  held back by the 30 second gate. Only the controller evaluates the gate, as a step of
  its own that comes before the call of \<^verbatim>\<open>refreshWeather\<close>. Ten seconds after the first
  fetch for Tokyo the gate is closed, and a direct call of \<^verbatim>\<open>refreshWeather\<close> fetches,
  stores and records a new refresh time all the same.
\<close>

theorem C10_refreshWeather_is_fetch:
  "refreshWeather rd cfg ax s loc u = fetchWeatherFromAPI rd cfg ax s loc u \<and>
   fst (refreshWeather rd cfg ax (s\<lparr>lastRefreshTimes := m\<rparr>) loc u) =
     fst (refreshWeather rd cfg ax s loc u) \<and>
   cache (snd (refreshWeather rd cfg ax (s\<lparr>lastRefreshTimes := m\<rparr>) loc u)) =
     cache (snd (refreshWeather rd cfg ax s loc u)) \<and>
   controller_refreshWeather now_gate rd cfg ax s req =
     (case parse req of
        None \<Rightarrow> (Failure 400 ''VALIDATION_ERROR'' ''Invalid request parameters'', s)
      | Some (l, un) \<Rightarrow>
          if checkRefreshEligibility now_gate s l
          then respond (refreshWeather rd cfg ax s l un)
          else (Failure 429 ''RATE_LIMIT_ERROR''
                  ''Please wait at least 30 seconds between manual updates'', s)) \<and>
   \<not> checkRefreshEligibility 1700000010000 ex_cache ''Tokyo'' \<and>
   fst (refreshWeather (ex_readings 1700000010000) ex_config (ex_response 25 ''Tokyo'') ex_cache
          ''Tokyo'' celsius) =
     Inr (ex_tokyo\<lparr>temperature := Num 25, fetchedAt := 1700000010000\<rparr>) \<and>
   lastRefreshTimes (snd (refreshWeather (ex_readings 1700000010000) ex_config
          (ex_response 25 ''Tokyo'') ex_cache ''Tokyo'' celsius)) ''Tokyo'' = Some 1700000010000"
proof -
  have a: "\<not> checkRefreshEligibility 1700000010000 ex_cache ''Tokyo''"
    unfolding ex_cache_eq by (simp add: checkRefreshEligibility_def getLastRefreshTime_def)
  have b: "fetchWeatherFromAPI (ex_readings 1700000010000) ex_config (ex_response 25 ''Tokyo'')
      ex_cache ''Tokyo'' celsius =
      (Inr (ex_tokyo\<lparr>temperature := Num 25, fetchedAt := 1700000010000\<rparr>),
       \<lparr>cache = [(''Tokyo_celsius'',
           \<lparr>data = ex_tokyo\<lparr>temperature := Num 25, fetchedAt := 1700000010000\<rparr>,
            expiresAt = 1700000910000\<rparr>)],
        lastRefreshTimes = [''Tokyo'' \<mapsto> 1700000010000]\<rparr>)"
    unfolding ex_cache_eq by (simp add: fetch_eval number_eval)
  show ?thesis
    using a by (simp add: refreshWeather_def fetchWeatherFromAPI_lastRefreshTimes_indep
      controller_refreshWeather_def Let_def b split: option.splits)
qed

end
